theory Spec2Isabelle
  imports Complex_Main
begin

section \<open>Goal-time formatting (frontend/src/lib/utils.ts)\<close>

text \<open>
  JavaScript numbers are modelled on the fragment the goal-time helpers are used on: the
  non-negative integers, as \<open>nat\<close>, with \<open>None\<close> standing for \<open>NaN\<close>. Floating-point
  rounding of very large values is outside this model.

  \<open>toString\<close> is \<open>Number.prototype.toString\<close> on such a value (its decimal digits),
  \<open>Number\<close> is the conversion \<open>Number(s)\<close> on a string of decimal digits (the empty string
  converts to 0; any other character makes the result \<open>NaN\<close> in this model: signs,
  fractions, exponents and surrounding white space are not modelled).
\<close>

definition digit_char :: "nat \<Rightarrow> char" where
  "digit_char d = ''0123456789'' ! d"

definition digit_val :: "char \<Rightarrow> nat option" where
  "digit_val c = map_of (zip ''0123456789'' [0 ..< 10]) c"

function toString :: "nat \<Rightarrow> string" where
  "toString n =
     (if n < 10 then [digit_char n] else toString (n div 10) @ [digit_char (n mod 10)])"
  by pat_completeness auto
termination
  by (relation "measure id") auto

declare toString.simps [simp del]

fun Number_from :: "nat \<Rightarrow> string \<Rightarrow> nat option" where
  "Number_from acc [] = Some acc"
| "Number_from acc (c # cs) =
     (case digit_val c of None \<Rightarrow> None | Some d \<Rightarrow> Number_from (acc * 10 + d) cs)"

definition Number :: "string \<Rightarrow> nat option" where
  "Number s = Number_from 0 s"


text \<open>\<open>s.split(sep)\<close> for a one-character separator: the empty string splits into one
  empty part.\<close>

fun split :: "char \<Rightarrow> string \<Rightarrow> string list" where
  "split sep [] = [[]]"
| "split sep (c # cs) =
     (if c = sep then [] # split sep cs
      else (case split sep cs of [] \<Rightarrow> [[c]] | p # ps \<Rightarrow> (c # p) # ps))"

text \<open>\<open>Math.round(x / 60)\<close> on a non-negative integer \<open>x\<close>: halves round up.\<close>

definition round_div60 :: "nat \<Rightarrow> nat" where
  "round_div60 x = (x + 30) div 60"


text \<open>
  \<^verbatim>\<open>
  export function parseTimeToMinutes(timeStr: string): number {
    const parts = timeStr.split(":").map(Number);
    if (parts.length === 3) {
      return parts[0] * 60 + parts[1] + Math.round(parts[2] / 60);
    }
    if (parts.length === 2) {
      return parts[0] * 60 + parts[1];
    }
    return 0;
  }
  \<close>
  Arithmetic on \<open>NaN\<close> gives \<open>NaN\<close>.
\<close>

definition parseTimeToMinutes :: "string \<Rightarrow> nat option" where
  "parseTimeToMinutes timeStr =
     (let parts = map Number (split (CHR '':'') timeStr)
      in case parts of
           [p0, p1, p2] \<Rightarrow>
             (case (p0, p1, p2) of
                (Some h, Some m, Some s) \<Rightarrow> Some (h * 60 + m + round_div60 s)
              | _ \<Rightarrow> None)
         | [p0, p1] \<Rightarrow>
             (case (p0, p1) of
                (Some h, Some m) \<Rightarrow> Some (h * 60 + m)
              | _ \<Rightarrow> None)
         | _ \<Rightarrow> Some 0)"


section \<open>Current week of a training plan (frontend/src/app/dashboard/page.tsx, plan/page.tsx)\<close>

text \<open>
  The plan document as the bearer-token tree declares it (lib/api.ts). A JavaScript
  \<open>number\<close> that is not used in arithmetic here is a \<open>rat\<close>.
\<close>

record DayWorkout =
  day :: string
  date :: string
  workout_type :: string
  description :: string
  distance_km :: rat
  pace :: string
  duration_minutes :: rat
  workout_notes :: string






text \<open>
  A \<open>Date\<close> is its time value, the milliseconds since the epoch, and \<open>None\<close> is the
  invalid date (time value \<open>NaN\<close>), for which every comparison is false. The constructor
  \<open>new Date(s)\<close> on a string belongs to the runtime: it is the parameter \<open>newDate\<close> of the
  functions below. \<open>today\<close> is the time value of \<open>new Date()\<close> after
  \<open>setHours(0, 0, 0, 0)\<close>, the local midnight that began the current day.

  \<open>d.setDate(d.getDate() + 7)\<close> moves a date seven calendar days on; it is modelled as
  seven days of 86400000 ms, which is exact whenever no daylight-saving shift falls
  inside the seven days.
\<close>

type_synonym Date = "int option"














text \<open>A date constructor for the examples: it reads the two dates written out and
  makes every other string an invalid date.\<close>

definition exampleDate :: "string \<Rightarrow> Date" where
  "exampleDate s =
     (if s = ''2025-01-06'' then Some 1736121600000
      else if s = ''2025-01-13'' then Some 1736726400000
      else None)"


section \<open>The browser and the two API clients\<close>

text \<open>
  What the code throws. \<open>ApiError\<close> is the class of the cookie-credential client
  (a message and the HTTP status); the others are the runtime's own error classes, all
  of them instances of \<open>Error\<close>.
\<close>

datatype exn =
    is_ApiError: ApiError (message: string) (status_code: nat)
  | Error (message: string)
  | TypeError (message: string)
  | SyntaxError (message: string)
  | RangeError (message: string)
  | ReferenceError (message: string)

datatype fitness = beginner | intermediate | advanced

text \<open>The body of a profile creation. The race date is the time value whose ISO string
  is sent; a goal time of \<open>None\<close> is \<open>NaN\<close>.\<close>

record ProfileCreate =
  race_date :: int
  goal_time_minutes :: "int option"
  fitness_level :: fitness

text \<open>The texts \<open>JSON.stringify\<close> is applied to, kept as the value serialised.\<close>

datatype json_text = Stringify_profile ProfileCreate | Stringify_regenerate bool

record RequestInit =
  request_method :: "string option"
  body :: "json_text option"

text \<open>One call of \<open>fetch\<close>, as issued.\<close>

record fetch_call =
  url :: string
  init :: RequestInit
  headers :: "(string \<times> string) list"
  credentials :: string

text \<open>
  How a call of \<open>fetch\<close> settles: the promise rejects (a network failure), or it
  resolves to a response with a status and a body. Reading the body with
  \<open>response.json()\<close> rejects when the body is not JSON, and otherwise resolves to the
  parsed object: its \<open>detail\<close> property when it has one, and the object read at the
  type the caller expects.
\<close>

datatype 'a json_result =
    JsonRejects exn
  | JsonResolves "string option" 'a

record 'a response =
  status :: nat
  json :: "'a json_result"

datatype 'a settled = Rejected exn | Responded "'a response"

text \<open>\<open>response.ok\<close>: the status is in the range 200 to 299.\<close>

definition ok :: "'a response \<Rightarrow> bool" where
  "ok r = (200 \<le> status r \<and> status r \<le> 299)"

text \<open>
  The part of the browser the code reads and writes: the configured base URL, whether
  \<open>window\<close> is defined, the \<open>access_token\<close> entry of the cookie store, and logs of the
  effects in the order they happen: the values assigned to \<open>window.location.href\<close>, the
  paths given to \<open>router.push\<close>, the calls of \<open>fetch\<close> and of \<open>console.error\<close>.
\<close>

record world =
  API_BASE_URL :: string
  has_window :: bool
  access_token :: "string option"
  hrefs :: "string list"
  pushes :: "string list"
  fetches :: "fetch_call list"
  console :: "(string \<times> exn) list"

text \<open>\<open>x || d\<close> on an optional string: absent and empty are falsy.\<close>

definition or_else :: "string option \<Rightarrow> string \<Rightarrow> string" where
  "or_else x d = (case x of None \<Rightarrow> d | Some v \<Rightarrow> if v = [] then d else v)"

definition no_options :: RequestInit where
  "no_options = \<lparr>request_method = None, body = None\<rparr>"

subsection \<open>The cookie-credential client (\<open>fetchApi\<close>)\<close>

text \<open>
  \<^verbatim>\<open>
  async function fetchApi<T>(endpoint: string, options: FetchOptions = {}): Promise<T> {
    const { requireAuth = true, ...fetchOptions } = options;
    const headers: HeadersInit = {
      'Content-Type': 'application/json',
      ...fetchOptions.headers,
    };
    const response = await fetch(`${API_BASE_URL}${endpoint}`, {
      ...fetchOptions,
      headers,
      credentials: 'include', // Include cookies for JWT auth
    });
    if (!response.ok) {
      if (response.status === 401 && requireAuth) {
        // Redirect to login on auth failure
        if (typeof window !== 'undefined') {
          window.location.href = '/';
        }
      }
      const errorData = await response.json().catch(() => ({ detail: 'Unknown error' }));
      throw new ApiError(errorData.detail || 'Request failed', response.status);
    }
    return response.json();
  }
  \<close>
  The function runs up to the call of \<open>fetch\<close> (\<open>fetchApi_send\<close>), and goes on when the
  call has settled (\<open>fetchApi_settle\<close>). \<open>fetchApi\<close> is one call with nothing in between.
\<close>

definition fetchApi_send :: "string \<Rightarrow> RequestInit \<Rightarrow> world \<Rightarrow> world" where
  "fetchApi_send endpoint fetchOptions w =
     w\<lparr>fetches := fetches w @
        [\<lparr>url = API_BASE_URL w @ endpoint, init = fetchOptions,
          headers = [(''Content-Type'', ''application/json'')],
          credentials = ''include''\<rparr>]\<rparr>"

definition fetchApi_settle :: "bool \<Rightarrow> 'a settled \<Rightarrow> world \<Rightarrow> (exn + 'a) \<times> world" where
  "fetchApi_settle requireAuth outcome w =
     (case outcome of
        Rejected e \<Rightarrow> (Inl e, w)
      | Responded response \<Rightarrow>
          if \<not> ok response then
            let w' = (if status response = 401 \<and> requireAuth
                      then (if has_window w then w\<lparr>hrefs := hrefs w @ [''/'']\<rparr> else w)
                      else w);
                errorData_detail =
                  (case json response of
                     JsonRejects _ \<Rightarrow> Some ''Unknown error''
                   | JsonResolves d _ \<Rightarrow> d)
            in (Inl (ApiError (or_else errorData_detail ''Request failed'') (status response)), w')
          else
            (case json response of
               JsonRejects e \<Rightarrow> (Inl e, w)
             | JsonResolves _ v \<Rightarrow> (Inr v, w)))"

definition fetchApi ::
  "string \<Rightarrow> RequestInit \<Rightarrow> bool \<Rightarrow> 'a settled \<Rightarrow> world \<Rightarrow> (exn + 'a) \<times> world" where
  "fetchApi endpoint fetchOptions requireAuth outcome w =
     fetchApi_settle requireAuth outcome (fetchApi_send endpoint fetchOptions w)"

text \<open>
  \<^verbatim>\<open>
  export const authApi = {
    getMe: () => fetchApi<User>('/auth/me', { requireAuth: false }),
    logout: () => fetchApi<{ message: string }>('/auth/logout', { method: 'POST' }),
    ...
  export const profileApi = {
    get: () => fetchApi<Profile>('/api/profile'),
    create: (data: ProfileCreate) =>
      fetchApi<Profile>('/api/profile', { method: 'POST', body: JSON.stringify(data) }),
  };
  export const runsApi = {
    getAll: (limit = 50, offset = 0) =>
      fetchApi<RunsListResponse>(`/api/runs?limit=${limit}&offset=${offset}`),
    sync: () => fetchApi<SyncResponse>('/api/runs/sync', { method: 'POST' }),
  };
  export const trainingPlanApi = {
    get: () => fetchApi<TrainingPlanResponse>('/api/training-plan'),
    generate: (regenerate = false) =>
      fetchApi<TrainingPlanResponse>('/api/training-plan/generate',
        { method: 'POST', body: JSON.stringify({ regenerate }) }),
  };
  \<close>
\<close>

definition authApi_getMe :: "'a settled \<Rightarrow> world \<Rightarrow> (exn + 'a) \<times> world" where
  "authApi_getMe = fetchApi ''/auth/me'' no_options False"

definition authApi_logout :: "'a settled \<Rightarrow> world \<Rightarrow> (exn + 'a) \<times> world" where
  "authApi_logout = fetchApi ''/auth/logout'' \<lparr>request_method = Some ''POST'', body = None\<rparr> True"

definition profileApi_get :: "'a settled \<Rightarrow> world \<Rightarrow> (exn + 'a) \<times> world" where
  "profileApi_get = fetchApi ''/api/profile'' no_options True"

definition profileApi_create ::
  "ProfileCreate \<Rightarrow> 'a settled \<Rightarrow> world \<Rightarrow> (exn + 'a) \<times> world" where
  "profileApi_create data =
     fetchApi ''/api/profile''
       \<lparr>request_method = Some ''POST'', body = Some (Stringify_profile data)\<rparr> True"

definition runsApi_getAll :: "nat \<Rightarrow> nat \<Rightarrow> 'a settled \<Rightarrow> world \<Rightarrow> (exn + 'a) \<times> world" where
  "runsApi_getAll limit offset =
     fetchApi (''/api/runs?limit='' @ toString limit @ ''&offset='' @ toString offset)
       no_options True"

definition runsApi_sync :: "'a settled \<Rightarrow> world \<Rightarrow> (exn + 'a) \<times> world" where
  "runsApi_sync = fetchApi ''/api/runs/sync'' \<lparr>request_method = Some ''POST'', body = None\<rparr> True"

definition trainingPlanApi_get :: "'a settled \<Rightarrow> world \<Rightarrow> (exn + 'a) \<times> world" where
  "trainingPlanApi_get = fetchApi ''/api/training-plan'' no_options True"

definition trainingPlanApi_generate ::
  "bool \<Rightarrow> 'a settled \<Rightarrow> world \<Rightarrow> (exn + 'a) \<times> world" where
  "trainingPlanApi_generate regenerate =
     fetchApi ''/api/training-plan/generate''
       \<lparr>request_method = Some ''POST'', body = Some (Stringify_regenerate regenerate)\<rparr> True"

subsection \<open>The bearer-token client (\<open>ApiClient\<close>)\<close>

text \<open>
  \<^verbatim>\<open>
  private getToken(): string | null {
    return Cookies.get("access_token") || null;
  }

  private async request<T>(endpoint: string, options: RequestInit = {}): Promise<T> {
    const token = this.getToken();
    const headers: HeadersInit = {
      "Content-Type": "application/json",
      ...(options.headers || {}),
    };
    if (token) {
      (headers as Record<string, string>)["Authorization"] = `Bearer ${token}`;
    }
    const response = await fetch(`${API_BASE_URL}${endpoint}`, {
      ...options,
      headers,
      credentials: "include",
    });
    if (!response.ok) {
      if (response.status === 401) {
        Cookies.remove("access_token");
        window.location.href = "/";
        throw new Error("Unauthorized");
      }
      const error = await response.json().catch(() => ({}));
      throw new Error(error.detail || `HTTP error! status: ${response.status}`);
    }
    return response.json();
  }
  \<close>
  Where \<open>window\<close> is not defined, the assignment to \<open>window.location.href\<close> throws a
  \<open>ReferenceError\<close>.
\<close>

definition getToken :: "world \<Rightarrow> string option" where
  "getToken w =
     (case access_token w of None \<Rightarrow> None | Some t \<Rightarrow> if t = [] then None else Some t)"

definition request_send :: "string \<Rightarrow> RequestInit \<Rightarrow> world \<Rightarrow> world" where
  "request_send endpoint options w =
     (let token = getToken w;
          headers = [(''Content-Type'', ''application/json'')] @
            (case token of None \<Rightarrow> [] | Some t \<Rightarrow> [(''Authorization'', ''Bearer '' @ t)])
      in w\<lparr>fetches := fetches w @
           [\<lparr>url = API_BASE_URL w @ endpoint, init = options, headers = headers,
             credentials = ''include''\<rparr>]\<rparr>)"

definition request_settle :: "'a settled \<Rightarrow> world \<Rightarrow> (exn + 'a) \<times> world" where
  "request_settle outcome w =
     (case outcome of
        Rejected e \<Rightarrow> (Inl e, w)
      | Responded response \<Rightarrow>
          if \<not> ok response then
            if status response = 401 then
              let w' = w\<lparr>access_token := None\<rparr>
              in if has_window w'
                 then (Inl (Error ''Unauthorized''), w'\<lparr>hrefs := hrefs w' @ [''/'']\<rparr>)
                 else (Inl (ReferenceError ''window is not defined''), w')
            else
              let error_detail =
                    (case json response of JsonRejects _ \<Rightarrow> None | JsonResolves d _ \<Rightarrow> d)
              in (Inl (Error (or_else error_detail
                             (''HTTP error! status: '' @ toString (status response)))), w)
          else
            (case json response of
               JsonRejects e \<Rightarrow> (Inl e, w)
             | JsonResolves _ v \<Rightarrow> (Inr v, w)))"

definition request ::
  "string \<Rightarrow> RequestInit \<Rightarrow> 'a settled \<Rightarrow> world \<Rightarrow> (exn + 'a) \<times> world" where
  "request endpoint options outcome w = request_settle outcome (request_send endpoint options w)"

text \<open>
  \<^verbatim>\<open>
  async getMe(): Promise<User> { return this.request<User>("/auth/me"); }
  async getProfile(): Promise<Profile> { return this.request<Profile>("/api/profile"); }
  async createProfile(data: {...}): Promise<Profile> {
    return this.request<Profile>("/api/profile", { method: "POST", body: JSON.stringify(data) });
  }
  async getRuns(skip = 0, limit = 50): Promise<RunsResponse> {
    return this.request<RunsResponse>(`/api/runs?skip=${skip}&limit=${limit}`);
  }
  async syncRuns() { return this.request("/api/runs/sync", { method: "POST" }); }
  async getTrainingPlan(): Promise<TrainingPlan> {
    return this.request<TrainingPlan>("/api/training-plan");
  }
  async generateTrainingPlan(regenerate = false): Promise<TrainingPlan> {
    return this.request<TrainingPlan>("/api/training-plan/generate",
      { method: "POST", body: JSON.stringify({ regenerate }) });
  }
  \<close>
\<close>

definition api_getMe :: "'a settled \<Rightarrow> world \<Rightarrow> (exn + 'a) \<times> world" where
  "api_getMe = request ''/auth/me'' no_options"

definition api_getProfile :: "'a settled \<Rightarrow> world \<Rightarrow> (exn + 'a) \<times> world" where
  "api_getProfile = request ''/api/profile'' no_options"

definition api_createProfile ::
  "ProfileCreate \<Rightarrow> 'a settled \<Rightarrow> world \<Rightarrow> (exn + 'a) \<times> world" where
  "api_createProfile data =
     request ''/api/profile'' \<lparr>request_method = Some ''POST'', body = Some (Stringify_profile data)\<rparr>"

definition api_getRuns :: "nat \<Rightarrow> nat \<Rightarrow> 'a settled \<Rightarrow> world \<Rightarrow> (exn + 'a) \<times> world" where
  "api_getRuns skip limit =
     request (''/api/runs?skip='' @ toString skip @ ''&limit='' @ toString limit) no_options"

definition api_syncRuns :: "'a settled \<Rightarrow> world \<Rightarrow> (exn + 'a) \<times> world" where
  "api_syncRuns = request ''/api/runs/sync'' \<lparr>request_method = Some ''POST'', body = None\<rparr>"

definition api_getTrainingPlan :: "'a settled \<Rightarrow> world \<Rightarrow> (exn + 'a) \<times> world" where
  "api_getTrainingPlan = request ''/api/training-plan'' no_options"

definition api_generateTrainingPlan ::
  "bool \<Rightarrow> 'a settled \<Rightarrow> world \<Rightarrow> (exn + 'a) \<times> world" where
  "api_generateTrainingPlan regenerate =
     request ''/api/training-plan/generate''
       \<lparr>request_method = Some ''POST'', body = Some (Stringify_regenerate regenerate)\<rparr>"

text \<open>A browser with nothing logged, and responses, to state examples with.\<close>

definition fresh_browser :: "string option \<Rightarrow> world" where
  "fresh_browser token =
     \<lparr>API_BASE_URL = ''http://localhost:8000'', has_window = True, access_token = token,
      hrefs = [], pushes = [], fetches = [], console = []\<rparr>"

definition unauthorized :: "'a \<Rightarrow> 'a settled" where
  "unauthorized v =
     Responded \<lparr>status = 401, json = JsonResolves (Some ''Not authenticated'') v\<rparr>"

definition server_error :: "'a settled" where
  "server_error =
     Responded \<lparr>status = 500, json = JsonRejects (SyntaxError ''Unexpected end of JSON input'')\<rparr>"

definition success :: "'a \<Rightarrow> 'a settled" where
  "success v = Responded \<lparr>status = 200, json = JsonResolves None v\<rparr>"


section \<open>The session provider of the cookie-credential tree (hooks/useAuth.ts)\<close>

record User =
  user_id :: int
  strava_id :: int
  email :: "string option"
  name :: "string option"
  profile_picture :: "string option"
  user_created_at :: string
  has_profile :: bool

record AuthState =
  user :: "User option"
  isLoading :: bool
  isAuthenticated :: bool
  error :: "string option"

text \<open>
  The provider: its React state, the browser, and the calls of \<open>fetchUser\<close> that have
  issued their request and wait for it to settle. Calls are numbered in the order they
  are issued. \<open>setState\<close> is modelled as taking effect at once.
\<close>

record session =
  state :: AuthState
  browser :: world
  pending :: "nat list"
  issued :: nat

text \<open>
  \<^verbatim>\<open>
  const [state, setState] = useState<AuthState>({
    user: null, isLoading: true, isAuthenticated: false, error: null,
  });
  \<close>
\<close>

definition initial_state :: AuthState where
  "initial_state = \<lparr>user = None, isLoading = True, isAuthenticated = False, error = None\<rparr>"

text \<open>
  \<^verbatim>\<open>
  const fetchUser = useCallback(async () => {
    try {
      const user = await authApi.getMe();
      setState({ user, isLoading: false, isAuthenticated: true, error: null });
    } catch (err) {
      setState({
        user: null, isLoading: false, isAuthenticated: false,
        error: err instanceof ApiError ? err.message : 'Failed to fetch user',
      });
    }
  }, []);
  \<close>
  \<open>fetchUser_start\<close> runs the call up to its \<open>await\<close>; \<open>fetchUser_settle\<close> is the rest
  of the call, run when the request has settled with the given outcome. \<open>fetchUser\<close> is
  one call from start to end, with nothing else running in between.
\<close>

definition fetchUser_start :: "session \<Rightarrow> session" where
  "fetchUser_start s =
     s\<lparr>browser := fetchApi_send ''/auth/me'' no_options (browser s),
       pending := pending s @ [issued s],
       issued := Suc (issued s)\<rparr>"

definition settled_state :: "exn + User \<Rightarrow> AuthState" where
  "settled_state r =
     (case r of
        Inr u \<Rightarrow> \<lparr>user = Some u, isLoading = False, isAuthenticated = True, error = None\<rparr>
      | Inl err \<Rightarrow>
          \<lparr>user = None, isLoading = False, isAuthenticated = False,
           error = Some (if is_ApiError err then message err else ''Failed to fetch user'')\<rparr>)"

definition fetchUser_settle :: "nat \<Rightarrow> User settled \<Rightarrow> session \<Rightarrow> session" where
  "fetchUser_settle k outcome s =
     (if k \<in> set (pending s) then
        (case fetchApi_settle False outcome (browser s) of
           (r, w) \<Rightarrow> s\<lparr>state := settled_state r, browser := w, pending := remove1 k (pending s)\<rparr>)
      else s)"

definition fetchUser :: "User settled \<Rightarrow> session \<Rightarrow> session" where
  "fetchUser outcome s = fetchUser_settle (issued s) outcome (fetchUser_start s)"

text \<open>
  \<^verbatim>\<open>
  const refresh = () => {
    setState((prev) => ({ ...prev, isLoading: true }));
    fetchUser();
  };
  \<close>
\<close>

definition refresh :: "session \<Rightarrow> session" where
  "refresh s = fetchUser_start (s\<lparr>state := (state s)\<lparr>isLoading := True\<rparr>\<rparr>)"

text \<open>
  \<^verbatim>\<open>
  const logout = async () => {
    try {
      await authApi.logout();
      setState({ user: null, isLoading: false, isAuthenticated: false, error: null });
      window.location.href = '/';
    } catch (err) {
      console.error('Logout failed:', err);
    }
  };
  \<close>
  The promise \<open>logout\<close> returns always resolves: the model returns the session only.
\<close>

definition useAuth_logout :: "unit settled \<Rightarrow> session \<Rightarrow> session" where
  "useAuth_logout outcome s =
     (case authApi_logout outcome (browser s) of
        (Inr _, w) \<Rightarrow>
          s\<lparr>state := \<lparr>user = None, isLoading = False, isAuthenticated = False, error = None\<rparr>,
            browser := w\<lparr>hrefs := hrefs w @ [''/'']\<rparr>\<rparr>
      | (Inl err, w) \<Rightarrow>
          s\<lparr>browser := w\<lparr>console := console w @ [(''Logout failed:'', err)]\<rparr>\<rparr>)"

text \<open>
  What happens to a mounted provider, one event after another: a caller invokes
  \<open>refresh\<close>, or the request of the call numbered \<open>k\<close> settles. The mount itself is
  \<open>useEffect(() => { fetchUser(); }, [fetchUser])\<close>.
\<close>

datatype event = Refresh | Settle nat "User settled"

fun step :: "session \<Rightarrow> event \<Rightarrow> session" where
  "step s Refresh = refresh s"
| "step s (Settle k outcome) = fetchUser_settle k outcome s"

definition run :: "event list \<Rightarrow> session \<Rightarrow> session" where
  "run evs s = foldl step s evs"

definition mounted :: "world \<Rightarrow> session" where
  "mounted w = fetchUser_start \<lparr>state = initial_state, browser = w, pending = [], issued = 0\<rparr>"

text \<open>
  The freshness property in the specification's words: once the most recent call of
  \<open>refresh\<close> has settled, no state with \<open>isLoading\<close> false holds user data other than what
  that call fetched. The most recent call is the one issued last; \<open>delivered k evs\<close> is the
  outcome its request settled with, if it has.
\<close>

fun delivered :: "nat \<Rightarrow> event list \<Rightarrow> User settled option" where
  "delivered k [] = None"
| "delivered k (Refresh # evs) = delivered k evs"
| "delivered k (Settle j outcome # evs) =
     (if j = k then Some outcome else delivered k evs)"

definition spec_fresh_after :: "event list \<Rightarrow> world \<Rightarrow> bool" where
  "spec_fresh_after evs w =
     (let s = run evs (mounted w)
      in case delivered (issued s - 1) evs of
           None \<Rightarrow> True
         | Some outcome \<Rightarrow>
             isLoading (state s) \<or>
             user (state s) = user (settled_state (fst (fetchApi_settle False outcome w))))"

text \<open>Two users, to state examples with.\<close>

definition alice :: User where
  "alice =
     \<lparr>user_id = 1, strava_id = 101, email = Some ''alice@example.org'', name = Some ''Alice'',
      profile_picture = None, user_created_at = ''2025-01-01T00:00:00'', has_profile = True\<rparr>"

definition alice_before :: User where
  "alice_before = alice\<lparr>has_profile := False\<rparr>"

section \<open>The session provider of the bearer-token tree (contexts/AuthContext.tsx)\<close>

text \<open>The provider's two pieces of React state, and the browser.\<close>

record AuthContext =
  ctx_user :: "User option"
  loading :: bool
  ctx_browser :: world

text \<open>
  \<^verbatim>\<open>
  const refreshUser = async () => {
    try {
      const token = Cookies.get("access_token");
      if (!token) {
        setUser(null);
        return;
      }
      const userData = await api.getMe();
      setUser(userData);
    } catch (error) {
      console.error("Failed to fetch user:", error);
      setUser(null);
      Cookies.remove("access_token");
    }
  };
  \<close>
  The outcome is that of the request of \<open>api.getMe\<close>, when the call makes one. A token
  that is absent or empty is falsy.
\<close>

definition refreshUser :: "User settled \<Rightarrow> AuthContext \<Rightarrow> AuthContext" where
  "refreshUser outcome c =
     (let token = access_token (ctx_browser c)
      in if token = None \<or> token = Some []
         then c\<lparr>ctx_user := None\<rparr>
         else
           (case api_getMe outcome (ctx_browser c) of
              (Inr userData, w) \<Rightarrow> c\<lparr>ctx_user := Some userData, ctx_browser := w\<rparr>
            | (Inl err, w) \<Rightarrow>
                c\<lparr>ctx_user := None,
                  ctx_browser :=
                    w\<lparr>console := console w @ [(''Failed to fetch user:'', err)],
                      access_token := None\<rparr>\<rparr>))"

text \<open>
  \<^verbatim>\<open>
  const login = (token: string) => {
    Cookies.set("access_token", token, { expires: 7 }); // 7 days
    refreshUser();
  };

  const logout = () => {
    Cookies.remove("access_token");
    setUser(null);
    window.location.href = "/";
  };
  \<close>
\<close>

definition login :: "string \<Rightarrow> User settled \<Rightarrow> AuthContext \<Rightarrow> AuthContext" where
  "login token outcome c =
     refreshUser outcome (c\<lparr>ctx_browser := (ctx_browser c)\<lparr>access_token := Some token\<rparr>\<rparr>)"

definition AuthContext_logout :: "AuthContext \<Rightarrow> AuthContext" where
  "AuthContext_logout c =
     c\<lparr>ctx_user := None,
       ctx_browser :=
         (ctx_browser c)\<lparr>access_token := None, hrefs := hrefs (ctx_browser c) @ [''/'']\<rparr>\<rparr>"


section \<open>Onboarding\<close>

subsection \<open>The form of the bearer-token tree (app/onboarding/page.tsx)\<close>

record OnboardingForm =
  form_loading :: bool
  form_error :: "string option"
  raceDate :: string
  goalTime :: string
  fitnessLevel :: fitness

text \<open>\<open>selectedDate <= today\<close>, false on an invalid date.\<close>

definition date_le :: "Date \<Rightarrow> int \<Rightarrow> bool" where
  "date_le d today = (case d of None \<Rightarrow> False | Some t \<Rightarrow> t \<le> today)"

text \<open>
  \<^verbatim>\<open>
  const handleSubmit = async (e: React.FormEvent) => {
    e.preventDefault();
    setLoading(true);
    setError(null);
    try {
      const goalTimeMinutes = parseTimeToMinutes(goalTime);
      if (goalTimeMinutes < 120 || goalTimeMinutes > 420) {
        throw new Error("Goal time should be between 2:00:00 and 7:00:00");
      }
      const selectedDate = new Date(raceDate);
      const today = new Date();
      today.setHours(0, 0, 0, 0);
      if (selectedDate <= today) {
        throw new Error("Race date must be in the future");
      }
      await api.createProfile({
        race_date: new Date(raceDate).toISOString(),
        goal_time_minutes: goalTimeMinutes,
        fitness_level: fitnessLevel,
      });
      await refreshUser();
      router.push("/dashboard");
    } catch (err) {
      setError(err instanceof Error ? err.message : "Failed to save profile");
    } finally {
      setLoading(false);
    }
  };
  \<close>
  \<open>handleSubmit_try\<close> is the \<open>try\<close> block: it gives the error thrown, if any, and the
  provider with its browser afterwards. A comparison with \<open>NaN\<close> is false, and
  \<open>toISOString\<close> throws a \<open>RangeError\<close> on an invalid date. The two outcomes are those of
  the request that creates the profile and of the request \<open>refreshUser\<close> makes.
\<close>

definition handleSubmit_try ::
  "(string \<Rightarrow> Date) \<Rightarrow> int \<Rightarrow> 'p settled \<Rightarrow> User settled \<Rightarrow> OnboardingForm \<Rightarrow>
     AuthContext \<Rightarrow> exn option \<times> AuthContext" where
  "handleSubmit_try newDate today created me form c =
     (let goalTimeMinutes = parseTimeToMinutes (goalTime form)
      in if (case goalTimeMinutes of None \<Rightarrow> False | Some g \<Rightarrow> g < 120 \<or> g > 420)
         then (Some (Error ''Goal time should be between 2:00:00 and 7:00:00''), c)
         else
           let selectedDate = newDate (raceDate form)
           in if date_le selectedDate today
              then (Some (Error ''Race date must be in the future''), c)
              else
                (case newDate (raceDate form) of
                   None \<Rightarrow> (Some (RangeError ''Invalid time value''), c)
                 | Some t \<Rightarrow>
                     (case api_createProfile
                             \<lparr>race_date = t,
                              goal_time_minutes = map_option int goalTimeMinutes,
                              fitness_level = fitnessLevel form\<rparr>
                             created (ctx_browser c) of
                        (Inl err, w) \<Rightarrow> (Some err, c\<lparr>ctx_browser := w\<rparr>)
                      | (Inr _, w) \<Rightarrow>
                          let c' = refreshUser me (c\<lparr>ctx_browser := w\<rparr>)
                          in (None,
                              c'\<lparr>ctx_browser :=
                                   (ctx_browser c')
                                     \<lparr>pushes := pushes (ctx_browser c') @ [''/dashboard'']\<rparr>\<rparr>))))"

definition handleSubmit ::
  "(string \<Rightarrow> Date) \<Rightarrow> int \<Rightarrow> 'p settled \<Rightarrow> User settled \<Rightarrow> OnboardingForm \<Rightarrow>
     AuthContext \<Rightarrow> OnboardingForm \<times> AuthContext" where
  "handleSubmit newDate today created me form c =
     (let form1 = form\<lparr>form_loading := True, form_error := None\<rparr>
      in case handleSubmit_try newDate today created me form1 c of
           (None, c') \<Rightarrow> (form1\<lparr>form_loading := False\<rparr>, c')
         | (Some err, c') \<Rightarrow>
             (form1\<lparr>form_error := Some (message err), form_loading := False\<rparr>, c'))"

subsection \<open>The form of the cookie-credential tree (app/onboarding/page.tsx)\<close>

record Onboarding =
  onboarding_error :: "string option"
  isSubmitting :: bool
  race_day :: string
  goalHours :: string
  goalMinutes :: string
  level :: fitness

text \<open>
  \<open>parseInt(s)\<close>: an optional sign and the longest run of decimal digits after it; \<open>NaN\<close>
  when there is no digit. Leading white space is not modelled.
\<close>

definition parseInt :: "string \<Rightarrow> int option" where
  "parseInt s =
     (let negative = (s \<noteq> [] \<and> hd s = CHR ''-'');
          unsigned = (if s \<noteq> [] \<and> (hd s = CHR ''-'' \<or> hd s = CHR ''+'') then tl s else s);
          digits = takeWhile (\<lambda>c. digit_val c \<noteq> None) unsigned
      in if digits = [] then None
         else (case Number digits of
                 None \<Rightarrow> None
               | Some n \<Rightarrow> Some (if negative then - int n else int n)))"

text \<open>
  \<^verbatim>\<open>
  const handleSubmit = async (e: React.FormEvent) => {
    e.preventDefault();
    setError(null);
    setIsSubmitting(true);
    try {
      const goalTimeMinutes = parseInt(goalHours) * 60 + parseInt(goalMinutes);
      // Create profile
      await profileApi.create({
        race_date: new Date(raceDate).toISOString(),
        goal_time_minutes: goalTimeMinutes,
        fitness_level: fitnessLevel,
      });
      // Generate training plan
      await trainingPlanApi.generate();
      // Refresh user data and redirect
      refresh();
      router.push('/dashboard');
    } catch (err) {
      if (err instanceof ApiError) {
        setError(err.message);
      } else {
        setError('Something went wrong. Please try again.');
      }
      setIsSubmitting(false);
    }
  };
  \<close>
  The two outcomes are those of the requests that create the profile and generate the
  plan. The request \<open>refresh\<close> issues is left pending. \<open>hours_and_minutes h m\<close> is
  \<open>h * 60 + m\<close>, which is \<open>NaN\<close> when either is.
\<close>

definition hours_and_minutes :: "int option \<Rightarrow> int option \<Rightarrow> int option" where
  "hours_and_minutes hours minutes =
     (case (hours, minutes) of (Some h, Some m) \<Rightarrow> Some (h * 60 + m) | _ \<Rightarrow> None)"

definition Onboarding_try ::
  "(string \<Rightarrow> Date) \<Rightarrow> 'p settled \<Rightarrow> 'q settled \<Rightarrow> Onboarding \<Rightarrow> session \<Rightarrow>
     exn option \<times> session" where
  "Onboarding_try newDate created generated form s =
     (let goalTimeMinutes =
            hours_and_minutes (parseInt (goalHours form)) (parseInt (goalMinutes form))
      in case newDate (race_day form) of
           None \<Rightarrow> (Some (RangeError ''Invalid time value''), s)
         | Some t \<Rightarrow>
             (case profileApi_create
                     \<lparr>race_date = t, goal_time_minutes = goalTimeMinutes,
                      fitness_level = level form\<rparr>
                     created (browser s) of
                (Inl err, w) \<Rightarrow> (Some err, s\<lparr>browser := w\<rparr>)
              | (Inr _, w) \<Rightarrow>
                  (case trainingPlanApi_generate False generated w of
                     (Inl err, w') \<Rightarrow> (Some err, s\<lparr>browser := w'\<rparr>)
                   | (Inr _, w') \<Rightarrow>
                       let s' = refresh (s\<lparr>browser := w'\<rparr>)
                       in (None,
                           s'\<lparr>browser :=
                                (browser s')\<lparr>pushes := pushes (browser s') @ [''/dashboard'']\<rparr>\<rparr>))))"

definition Onboarding_handleSubmit ::
  "(string \<Rightarrow> Date) \<Rightarrow> 'p settled \<Rightarrow> 'q settled \<Rightarrow> Onboarding \<Rightarrow> session \<Rightarrow>
     Onboarding \<times> session" where
  "Onboarding_handleSubmit newDate created generated form s =
     (let form1 = form\<lparr>onboarding_error := None, isSubmitting := True\<rparr>
      in case Onboarding_try newDate created generated form1 s of
           (None, s') \<Rightarrow> (form1, s')
         | (Some err, s') \<Rightarrow>
             (form1\<lparr>onboarding_error :=
                      Some (if is_ApiError err then message err
                            else ''Something went wrong. Please try again.''),
                    isSubmitting := False\<rparr>, s'))"

section \<open>The route guard\<close>

text \<open>What a guard renders: the loading spinner, nothing, or its children, which the
  cookie-credential tree wraps in the page layout with the navigation bar.\<close>

datatype 'c element = LoadingSpinner | Null | Layout "User option" 'c | Fragment 'c

fun shows_children :: "'c element \<Rightarrow> bool" where
  "shows_children (Layout _ _) = True"
| "shows_children (Fragment _) = True"
| "shows_children _ = False"

text \<open>
  components/ProtectedRoute.tsx of the cookie-credential tree:
  \<^verbatim>\<open>
  const { user, isLoading, isAuthenticated, logout } = useAuth();
  useEffect(() => {
    if (!isLoading) {
      if (!isAuthenticated) {
        router.push('/');
      } else if (requireProfile && user && !user.has_profile) {
        router.push('/onboarding');
      }
    }
  }, [isLoading, isAuthenticated, user, requireProfile, router]);
  if (isLoading) { return (<div ...><LoadingSpinner size="lg" message="Loading..." /></div>); }
  if (!isAuthenticated) { return null; }
  if (requireProfile && user && !user.has_profile) { return null; }
  return (<div ...><Navbar user={user} onLogout={logout} /><main ...>{children}</main></div>);
  \<close>
  The component is its render, the paths its effect pushes, and the dependencies of the
  effect.
\<close>

definition profile_missing :: "User option \<Rightarrow> bool" where
  "profile_missing u = (case u of None \<Rightarrow> False | Some v \<Rightarrow> \<not> has_profile v)"

definition ProtectedRoute :: "bool \<Rightarrow> 'c \<Rightarrow> AuthState \<Rightarrow> 'c element" where
  "ProtectedRoute requireProfile children a =
     (if isLoading a then LoadingSpinner
      else if \<not> isAuthenticated a then Null
      else if requireProfile \<and> profile_missing (user a) then Null
      else Layout (user a) children)"

definition ProtectedRoute_effect :: "bool \<Rightarrow> AuthState \<Rightarrow> string list" where
  "ProtectedRoute_effect requireProfile a =
     (if \<not> isLoading a then
        (if \<not> isAuthenticated a then [''/'']
         else if requireProfile \<and> profile_missing (user a) then [''/onboarding'']
         else [])
      else [])"

definition ProtectedRoute_deps :: "bool \<Rightarrow> AuthState \<Rightarrow> bool \<times> bool \<times> User option \<times> bool" where
  "ProtectedRoute_deps requireProfile a = (isLoading a, isAuthenticated a, user a, requireProfile)"

text \<open>
  components/ProtectedRoute.tsx of the bearer-token tree:
  \<^verbatim>\<open>
  const { user, loading } = useAuth();
  useEffect(() => {
    if (!loading) {
      if (!user) {
        router.push("/");
      } else if (requireProfile && !user.has_profile) {
        router.push("/onboarding");
      }
    }
  }, [user, loading, requireProfile, router]);
  if (loading) { return (<div ...><LoadingSpinner size="lg" text="Loading..." /></div>); }
  if (!user) { return null; }
  if (requireProfile && !user.has_profile) { return null; }
  return <>{children}</>;
  \<close>
  Of the provider, the guard reads the user and the loading flag.
\<close>

definition AuthContext_ProtectedRoute ::
  "bool \<Rightarrow> 'c \<Rightarrow> User option \<times> bool \<Rightarrow> 'c element" where
  "AuthContext_ProtectedRoute requireProfile children c =
     (case c of (u, busy) \<Rightarrow>
        if busy then LoadingSpinner
        else if u = None then Null
        else if requireProfile \<and> profile_missing u then Null
        else Fragment children)"

definition AuthContext_ProtectedRoute_effect :: "bool \<Rightarrow> User option \<times> bool \<Rightarrow> string list" where
  "AuthContext_ProtectedRoute_effect requireProfile c =
     (case c of (u, busy) \<Rightarrow>
        if \<not> busy then
          (if u = None then [''/'']
           else if requireProfile \<and> profile_missing u then [''/onboarding'']
           else [])
        else [])"

definition AuthContext_ProtectedRoute_deps ::
  "bool \<Rightarrow> User option \<times> bool \<Rightarrow> User option \<times> bool \<times> bool" where
  "AuthContext_ProtectedRoute_deps requireProfile c = (fst c, snd c, requireProfile)"

text \<open>
  A mounted component over the successive values of what it reads from the provider:
  each value is rendered, and after a render the effect runs when it is the first render
  or a dependency differs from the render before. The result is the sequence of what was
  rendered and the paths pushed. Dependencies are compared by value.
\<close>

fun renders ::
  "('s \<Rightarrow> 'e) \<Rightarrow> ('s \<Rightarrow> string list) \<Rightarrow> ('s \<Rightarrow> 'd) \<Rightarrow> 'd option \<Rightarrow> 's list \<Rightarrow>
     'e list \<times> string list" where
  "renders render effect deps previous [] = ([], [])"
| "renders render effect deps previous (s # ss) =
     (case renders render effect deps (Some (deps s)) ss of
        (es, ps) \<Rightarrow>
          (render s # es, (if previous = Some (deps s) then [] else effect s) @ ps))"


text \<open>
  The other copy of components/ProtectedRoute.tsx in the cookie-credential tree keeps a
  flag of its own and shows the spinner in every state that does not show the children:
  \<^verbatim>\<open>
  const [isRedirecting, setIsRedirecting] = useState(false);
  useEffect(() => {
    if (!isLoading) {
      if (!isAuthenticated) {
        setIsRedirecting(true);
        router.push('/');
      } else if (requireProfile && user && !user.has_profile) {
        setIsRedirecting(true);
        router.push('/onboarding');
      }
    }
  }, [isLoading, isAuthenticated, user, requireProfile, router]);
  // Show loading state while checking auth or redirecting
  if (isLoading || isRedirecting || !isAuthenticated ||
      (requireProfile && user && !user.has_profile)) {
    return (<div ...><LoadingSpinner size="lg" message="Loading..." /></div>);
  }
  return (<div ...><Navbar user={user} onLogout={logout} /><main ...>{children}</main></div>);
  \<close>
  Its effect gives the new value of the flag with the paths pushed.
\<close>

definition ProtectedRoute_redirecting :: "bool \<Rightarrow> 'c \<Rightarrow> bool \<Rightarrow> AuthState \<Rightarrow> 'c element" where
  "ProtectedRoute_redirecting requireProfile children isRedirecting a =
     (if isLoading a \<or> isRedirecting \<or> \<not> isAuthenticated a \<or>
         (requireProfile \<and> profile_missing (user a))
      then LoadingSpinner
      else Layout (user a) children)"

definition ProtectedRoute_redirecting_effect ::
  "bool \<Rightarrow> AuthState \<Rightarrow> bool \<Rightarrow> bool \<times> string list" where
  "ProtectedRoute_redirecting_effect requireProfile a isRedirecting =
     (if \<not> isLoading a then
        (if \<not> isAuthenticated a then (True, [''/''])
         else if requireProfile \<and> profile_missing (user a) then (True, [''/onboarding''])
         else (isRedirecting, []))
      else (isRedirecting, []))"

text \<open>
  A mounted component with a piece of state of its own: as \<open>renders\<close>, and when the
  effect has changed the state, the same value is rendered once more with the new
  state.
\<close>

fun renders_with_state ::
  "('l \<Rightarrow> 's \<Rightarrow> 'e) \<Rightarrow> ('s \<Rightarrow> 'l \<Rightarrow> 'l \<times> string list) \<Rightarrow> ('s \<Rightarrow> 'd) \<Rightarrow> 'l \<Rightarrow> 'd option \<Rightarrow>
     's list \<Rightarrow> 'e list \<times> string list" where
  "renders_with_state render effect deps l previous [] = ([], [])"
| "renders_with_state render effect deps l previous (s # ss) =
     (case (if previous = Some (deps s) then (l, []) else effect s l) of
        (l', pushed) \<Rightarrow>
          (case renders_with_state render effect deps l' (Some (deps s)) ss of
             (es, ps) \<Rightarrow>
               (render l s # (if l' = l then [] else [render l' s]) @ es, pushed @ ps)))"


text \<open>The three guards mounted, with the flag of the second one initially false.\<close>

definition mounted_ProtectedRoute ::
  "bool \<Rightarrow> 'c \<Rightarrow> AuthState list \<Rightarrow> 'c element list \<times> string list" where
  "mounted_ProtectedRoute requireProfile children states =
     renders (ProtectedRoute requireProfile children) (ProtectedRoute_effect requireProfile)
       (ProtectedRoute_deps requireProfile) None states"

definition mounted_ProtectedRoute_redirecting ::
  "bool \<Rightarrow> 'c \<Rightarrow> AuthState list \<Rightarrow> 'c element list \<times> string list" where
  "mounted_ProtectedRoute_redirecting requireProfile children states =
     renders_with_state (ProtectedRoute_redirecting requireProfile children)
       (ProtectedRoute_redirecting_effect requireProfile) (ProtectedRoute_deps requireProfile)
       False None states"

definition mounted_AuthContext_ProtectedRoute ::
  "bool \<Rightarrow> 'c \<Rightarrow> (User option \<times> bool) list \<Rightarrow> 'c element list \<times> string list" where
  "mounted_AuthContext_ProtectedRoute requireProfile children provided =
     renders (AuthContext_ProtectedRoute requireProfile children)
       (AuthContext_ProtectedRoute_effect requireProfile)
       (AuthContext_ProtectedRoute_deps requireProfile) None provided"

subsection \<open>Digits and their reading\<close>











subsection \<open>Splitting at the separator\<close>

lemma split_no_sep: "sep \<notin> set s \<Longrightarrow> split sep s = [s]"
  by (induction s) auto




subsection \<open>The scan over the weeks\<close>










subsection \<open>The API clients on a response that is not ok\<close>

lemma not_ok_401: "status response = 401 \<Longrightarrow> \<not> ok response"
  by (simp add: ok_def)

lemma fetchApi_send_keeps:
  "hrefs (fetchApi_send endpoint fetchOptions w) = hrefs w"
  "has_window (fetchApi_send endpoint fetchOptions w) = has_window w"
  "access_token (fetchApi_send endpoint fetchOptions w) = access_token w"
  "console (fetchApi_send endpoint fetchOptions w) = console w"
  "pushes (fetchApi_send endpoint fetchOptions w) = pushes w"
  by (simp_all add: fetchApi_send_def)

lemma request_send_keeps:
  "hrefs (request_send endpoint options w) = hrefs w"
  "has_window (request_send endpoint options w) = has_window w"
  "access_token (request_send endpoint options w) = access_token w"
  "console (request_send endpoint options w) = console w"
  "pushes (request_send endpoint options w) = pushes w"
  by (simp_all add: request_send_def Let_def)

lemma fetchApi_settle_keeps:
  "fetches (snd (fetchApi_settle requireAuth outcome w)) = fetches w"
  "access_token (snd (fetchApi_settle requireAuth outcome w)) = access_token w"
  "console (snd (fetchApi_settle requireAuth outcome w)) = console w"
  by (simp_all add: fetchApi_settle_def Let_def split: settled.splits json_result.splits)

lemma request_settle_keeps:
  "fetches (snd (request_settle outcome w)) = fetches w"
  "console (snd (request_settle outcome w)) = console w"
  by (simp_all add: request_settle_def Let_def split: settled.splits json_result.splits)

lemma fetchApi_401:
  assumes "status response = 401"
  shows "fetchApi endpoint fetchOptions requireAuth (Responded response) w =
    (Inl (ApiError
        (or_else (case json response of
                    JsonRejects _ \<Rightarrow> Some ''Unknown error''
                  | JsonResolves d _ \<Rightarrow> d) ''Request failed'') 401),
     if requireAuth \<and> has_window w
     then (fetchApi_send endpoint fetchOptions w)\<lparr>hrefs := hrefs w @ [''/'']\<rparr>
     else fetchApi_send endpoint fetchOptions w)"
  using assms not_ok_401 [OF assms]
  by (simp add: fetchApi_def fetchApi_settle_def Let_def fetchApi_send_keeps)

lemma request_401:
  assumes "status response = 401" and "has_window w"
  shows "request endpoint options (Responded response) w =
    (Inl (Error ''Unauthorized''),
     (request_send endpoint options w)\<lparr>access_token := None, hrefs := hrefs w @ [''/'']\<rparr>)"
  using assms not_ok_401 [OF assms(1)]
  by (simp add: request_def request_settle_def Let_def request_send_keeps)


subsection \<open>The guards over a trajectory of unauthenticated sessions\<close>

lemma renders_Cons:
  "fst (renders render effect deps previous (s # ss)) =
     render s # fst (renders render effect deps (Some (deps s)) ss)"
  "snd (renders render effect deps previous (s # ss)) =
     (if previous = Some (deps s) then [] else effect s) @
     snd (renders render effect deps (Some (deps s)) ss)"
  by (simp_all split: prod.splits)

lemma ProtectedRoute_unauthenticated:
  assumes "\<not> isAuthenticated a"
  shows "ProtectedRoute requireProfile children a = (if isLoading a then LoadingSpinner else Null)"
    and "ProtectedRoute_effect requireProfile a = (if isLoading a then [] else [''/''])"
  using assms by (simp_all add: ProtectedRoute_def ProtectedRoute_effect_def)

lemma renders_ProtectedRoute_elements:
  assumes "\<forall>a \<in> set trajectory. \<not> isAuthenticated a"
  shows "fst (renders (ProtectedRoute requireProfile children)
               (ProtectedRoute_effect requireProfile) (ProtectedRoute_deps requireProfile)
               previous trajectory) =
         map (\<lambda>a. if isLoading a then LoadingSpinner else Null) trajectory"
  using assms
  by (induction trajectory arbitrary: previous)
    (simp_all add: ProtectedRoute_unauthenticated renders_Cons del: renders.simps(2))

lemma renders_ProtectedRoute_pushes:
  assumes "\<forall>a \<in> set trajectory. \<not> isAuthenticated a"
  shows "set (snd (renders (ProtectedRoute requireProfile children)
               (ProtectedRoute_effect requireProfile) (ProtectedRoute_deps requireProfile)
               previous trajectory)) \<subseteq> {''/''}"
  using assms
  by (induction trajectory arbitrary: previous)
    (simp_all add: ProtectedRoute_unauthenticated renders_Cons del: renders.simps(2))

lemma renders_ProtectedRoute_redirects:
  assumes "\<forall>a \<in> set trajectory. \<not> isAuthenticated a"
    and "\<exists>a \<in> set trajectory. \<not> isLoading a"
    and "case previous of None \<Rightarrow> True | Some d \<Rightarrow> fst d"
  shows "''/'' \<in> set (snd (renders (ProtectedRoute requireProfile children)
               (ProtectedRoute_effect requireProfile) (ProtectedRoute_deps requireProfile)
               previous trajectory))"
  using assms
proof (induction trajectory arbitrary: previous)
  case Nil
  then show ?case by simp
next
  case (Cons a rest)
  show ?case
  proof (cases "isLoading a")
    case True
    then have later: "\<exists>b \<in> set rest. \<not> isLoading b"
      using Cons.prems(2) by auto
    have "''/'' \<in> set (snd (renders (ProtectedRoute requireProfile children)
               (ProtectedRoute_effect requireProfile) (ProtectedRoute_deps requireProfile)
               (Some (ProtectedRoute_deps requireProfile a)) rest))"
      using Cons.prems(1) later True
      by (intro Cons.IH) (simp_all add: ProtectedRoute_deps_def)
    then show ?thesis
      by (simp add: renders_Cons del: renders.simps(2))
  next
    case False
    then have "previous \<noteq> Some (ProtectedRoute_deps requireProfile a)"
      using Cons.prems(3) by (auto simp: ProtectedRoute_deps_def split: option.splits)
    moreover have "ProtectedRoute_effect requireProfile a = [''/'']"
      using Cons.prems(1) False by (simp add: ProtectedRoute_unauthenticated)
    ultimately show ?thesis
      by (simp add: renders_Cons del: renders.simps(2))
  qed
qed

lemma AuthContext_ProtectedRoute_unauthenticated:
  shows "AuthContext_ProtectedRoute requireProfile children (None, busy) =
      (if busy then LoadingSpinner else Null)"
    and "AuthContext_ProtectedRoute_effect requireProfile (None, busy) =
      (if busy then [] else [''/''])"
  by (simp_all add: AuthContext_ProtectedRoute_def AuthContext_ProtectedRoute_effect_def)

lemma renders_AuthContext_elements:
  assumes "\<forall>c \<in> set trajectory. fst c = None"
  shows "fst (renders (AuthContext_ProtectedRoute requireProfile children)
               (AuthContext_ProtectedRoute_effect requireProfile)
               (AuthContext_ProtectedRoute_deps requireProfile) previous trajectory) =
         map (\<lambda>c. if snd c then LoadingSpinner else Null) trajectory"
  using assms
  by (induction trajectory arbitrary: previous)
    (auto simp: AuthContext_ProtectedRoute_unauthenticated renders_Cons simp del: renders.simps(2))

lemma renders_AuthContext_pushes:
  assumes "\<forall>c \<in> set trajectory. fst c = None"
  shows "set (snd (renders (AuthContext_ProtectedRoute requireProfile children)
               (AuthContext_ProtectedRoute_effect requireProfile)
               (AuthContext_ProtectedRoute_deps requireProfile) previous trajectory)) \<subseteq> {''/''}"
  using assms
  by (induction trajectory arbitrary: previous)
    (auto simp: AuthContext_ProtectedRoute_unauthenticated renders_Cons
      simp del: renders.simps(2) split: if_splits)

lemma renders_AuthContext_redirects:
  assumes "\<forall>c \<in> set trajectory. fst c = None"
    and "\<exists>c \<in> set trajectory. \<not> snd c"
    and "case previous of None \<Rightarrow> True | Some d \<Rightarrow> fst (snd d)"
  shows "''/'' \<in> set (snd (renders (AuthContext_ProtectedRoute requireProfile children)
               (AuthContext_ProtectedRoute_effect requireProfile)
               (AuthContext_ProtectedRoute_deps requireProfile) previous trajectory))"
  using assms
proof (induction trajectory arbitrary: previous)
  case Nil
  then show ?case by simp
next
  case (Cons c rest)
  obtain busy where c: "c = (None, busy)"
    using Cons.prems(1) by (cases c) auto
  show ?case
  proof (cases busy)
    case True
    then have later: "\<exists>b \<in> set rest. \<not> snd b"
      using Cons.prems(2) c by auto
    have "''/'' \<in> set (snd (renders (AuthContext_ProtectedRoute requireProfile children)
               (AuthContext_ProtectedRoute_effect requireProfile)
               (AuthContext_ProtectedRoute_deps requireProfile)
               (Some (AuthContext_ProtectedRoute_deps requireProfile c)) rest))"
      using Cons.prems(1) later True c
      by (intro Cons.IH) (simp_all add: AuthContext_ProtectedRoute_deps_def)
    then show ?thesis
      by (simp add: renders_Cons del: renders.simps(2))
  next
    case False
    then have "previous \<noteq> Some (AuthContext_ProtectedRoute_deps requireProfile c)"
      using Cons.prems(3) c
      by (auto simp: AuthContext_ProtectedRoute_deps_def split: option.splits)
    moreover have "AuthContext_ProtectedRoute_effect requireProfile c = [''/'']"
      using False c by (simp add: AuthContext_ProtectedRoute_unauthenticated)
    ultimately show ?thesis
      by (simp add: renders_Cons del: renders.simps(2))
  qed
qed


lemma renders_with_state_Cons:
  "fst (renders_with_state render effect deps l previous (s # ss)) =
     (let l' = fst (if previous = Some (deps s) then (l, []) else effect s l)
      in render l s # (if l' = l then [] else [render l' s]) @
         fst (renders_with_state render effect deps l' (Some (deps s)) ss))"
  "snd (renders_with_state render effect deps l previous (s # ss)) =
     (let after = (if previous = Some (deps s) then (l, []) else effect s l)
      in snd after @ snd (renders_with_state render effect deps (fst after) (Some (deps s)) ss))"
  by (simp_all add: Let_def split: prod.splits)

lemma ProtectedRoute_redirecting_unauthenticated:
  assumes "\<not> isAuthenticated a"
  shows "ProtectedRoute_redirecting requireProfile children flag a = LoadingSpinner"
    and "ProtectedRoute_redirecting_effect requireProfile a flag =
      (if isLoading a then (flag, []) else (True, [''/'']))"
  using assms
  by (simp_all add: ProtectedRoute_redirecting_def ProtectedRoute_redirecting_effect_def)

lemma renders_redirecting_elements:
  assumes "\<forall>a \<in> set trajectory. \<not> isAuthenticated a"
  shows "list_all (\<lambda>e. e = LoadingSpinner)
      (fst (renders_with_state (ProtectedRoute_redirecting requireProfile children)
             (ProtectedRoute_redirecting_effect requireProfile)
             (ProtectedRoute_deps requireProfile) flag previous trajectory))"
  using assms
  by (induction trajectory arbitrary: flag previous)
    (simp_all add: ProtectedRoute_redirecting_unauthenticated renders_with_state_Cons Let_def
      del: renders_with_state.simps(2))

lemma renders_redirecting_pushes:
  assumes "\<forall>a \<in> set trajectory. \<not> isAuthenticated a"
  shows "set (snd (renders_with_state (ProtectedRoute_redirecting requireProfile children)
             (ProtectedRoute_redirecting_effect requireProfile)
             (ProtectedRoute_deps requireProfile) flag previous trajectory)) \<subseteq> {''/''}"
  using assms
proof (induction trajectory arbitrary: flag previous)
  case Nil
  then show ?case by simp
next
  case (Cons a rest)
  have "set (snd (renders_with_state (ProtectedRoute_redirecting requireProfile children)
             (ProtectedRoute_redirecting_effect requireProfile)
             (ProtectedRoute_deps requireProfile) flag' previous' rest)) \<subseteq> {''/''}"
    for flag' previous'
    using Cons.prems by (intro Cons.IH) simp
  then show ?case
    using Cons.prems
    by (auto simp: ProtectedRoute_redirecting_unauthenticated renders_with_state_Cons Let_def
        simp del: renders_with_state.simps(2) split: if_splits)
qed

lemma renders_redirecting_redirects:
  assumes "\<forall>a \<in> set trajectory. \<not> isAuthenticated a"
    and "\<exists>a \<in> set trajectory. \<not> isLoading a"
    and "case previous of None \<Rightarrow> True | Some d \<Rightarrow> fst d"
  shows "''/'' \<in> set (snd (renders_with_state (ProtectedRoute_redirecting requireProfile children)
             (ProtectedRoute_redirecting_effect requireProfile)
             (ProtectedRoute_deps requireProfile) flag previous trajectory))"
  using assms
proof (induction trajectory arbitrary: flag previous)
  case Nil
  then show ?case by simp
next
  case (Cons a rest)
  show ?case
  proof (cases "isLoading a")
    case True
    then have later: "\<exists>b \<in> set rest. \<not> isLoading b"
      using Cons.prems(2) by auto
    have "''/'' \<in> set (snd (renders_with_state (ProtectedRoute_redirecting requireProfile children)
             (ProtectedRoute_redirecting_effect requireProfile)
             (ProtectedRoute_deps requireProfile) flag'
             (Some (ProtectedRoute_deps requireProfile a)) rest))" for flag'
      using Cons.prems(1) later True
      by (intro Cons.IH) (simp_all add: ProtectedRoute_deps_def)
    then show ?thesis
      by (simp add: renders_with_state_Cons Let_def del: renders_with_state.simps(2))
  next
    case False
    then have "previous \<noteq> Some (ProtectedRoute_deps requireProfile a)"
      using Cons.prems(3) by (auto simp: ProtectedRoute_deps_def split: option.splits)
    moreover have "ProtectedRoute_redirecting_effect requireProfile a flag = (True, [''/''])"
      using Cons.prems(1) False by (simp add: ProtectedRoute_redirecting_unauthenticated)
    ultimately show ?thesis
      by (simp add: renders_with_state_Cons Let_def del: renders_with_state.simps(2))
  qed
qed


subsection \<open>The requests of the two onboarding forms\<close>

lemma fetchApi_fetches:
  "fetches (snd (fetchApi endpoint fetchOptions requireAuth outcome w)) =
     fetches (fetchApi_send endpoint fetchOptions w)"
  by (simp add: fetchApi_def fetchApi_settle_keeps)

lemma fetchApi_send_fetches:
  "\<exists>more. fetches (fetchApi_send endpoint fetchOptions w) = fetches w @ more"
  by (simp add: fetchApi_send_def)

lemma Onboarding_first_request:
  assumes "newDate (race_day form) = Some t"
  shows "\<exists>more. fetches (browser (snd (Onboarding_handleSubmit newDate created generated form s))) =
    fetches (fetchApi_send ''/api/profile''
      \<lparr>request_method = Some ''POST'',
       body = Some (Stringify_profile
         \<lparr>race_date = t,
          goal_time_minutes =
            hours_and_minutes (parseInt (goalHours form)) (parseInt (goalMinutes form)),
          fitness_level = level form\<rparr>)\<rparr> (browser s)) @ more"
proof -
  let ?data = "\<lparr>race_date = t,
      goal_time_minutes =
        hours_and_minutes (parseInt (goalHours form)) (parseInt (goalMinutes form)),
      fitness_level = level form\<rparr>"
  let ?sent = "fetchApi_send ''/api/profile''
      \<lparr>request_method = Some ''POST'', body = Some (Stringify_profile ?data)\<rparr> (browser s)"
  obtain r w where create: "profileApi_create ?data created (browser s) = (r, w)"
    by (cases "profileApi_create ?data created (browser s)")
  have w: "fetches w = fetches ?sent"
    using fetchApi_fetches
      [of "''/api/profile''" "\<lparr>request_method = Some ''POST'', body = Some (Stringify_profile ?data)\<rparr>"
        True created "browser s"] create
    by (simp add: profileApi_create_def)
  show ?thesis
  proof (cases r)
    case (Inl err)
    then show ?thesis
      using assms create w
      by (simp add: Onboarding_handleSubmit_def Onboarding_try_def Let_def)
  next
    case (Inr v)
    obtain r' w' where generate: "trainingPlanApi_generate False generated w = (r', w')"
      by (cases "trainingPlanApi_generate False generated w")
    have "fetches w' = fetches (fetchApi_send ''/api/training-plan/generate''
        \<lparr>request_method = Some ''POST'', body = Some (Stringify_regenerate False)\<rparr> w)"
      using fetchApi_fetches
        [of "''/api/training-plan/generate''"
          "\<lparr>request_method = Some ''POST'', body = Some (Stringify_regenerate False)\<rparr>"
          True generated w] generate
      by (simp add: trainingPlanApi_generate_def)
    then have w': "\<exists>more. fetches w' = fetches ?sent @ more"
      using w by (simp add: fetchApi_send_def)
    show ?thesis
    proof (cases r')
      case (Inl err)
      then show ?thesis
        using assms create Inr generate w'
        by (simp add: Onboarding_handleSubmit_def Onboarding_try_def Let_def)
    next
      case (Inr v')
      then show ?thesis
        using assms create \<open>r = Inr v\<close> generate w'
        by (auto simp: Onboarding_handleSubmit_def Onboarding_try_def Let_def refresh_def
            fetchUser_start_def fetchApi_send_def)
    qed
  qed
qed

section \<open>Claims\<close>











text \<open>
  C1 (as amended). For every response with status 401 received in a browser, whichever
  operation made the request: the bearer-token client (\<open>ApiClient.request\<close>) removes the
  stored token, issues exactly one navigation to \<open>/\<close> and raises the error
  \<open>Unauthorized\<close>; the cookie-credential client (\<open>fetchApi\<close>), which stores no token,
  raises its typed error with status 401, and issues exactly one navigation to \<open>/\<close> when
  the operation requires authentication and none when it does not (\<open>getMe\<close>).
\<close>

theorem unauthorized_clears_and_redirects:
  assumes "status response = 401" and "has_window w"
  shows "fst (request endpoint options (Responded response) w) = Inl (Error ''Unauthorized'') \<and>
    access_token (snd (request endpoint options (Responded response) w)) = None \<and>
    hrefs (snd (request endpoint options (Responded response) w)) = hrefs w @ [''/''] \<and>
    (\<exists>msg. fst (fetchApi endpoint options requireAuth (Responded response) w) =
       Inl (ApiError msg 401)) \<and>
    access_token (snd (fetchApi endpoint options requireAuth (Responded response) w)) =
      access_token w \<and>
    hrefs (snd (fetchApi endpoint options True (Responded response) w)) = hrefs w @ [''/''] \<and>
    hrefs (snd (fetchApi endpoint options False (Responded response) w)) = hrefs w \<and>
    hrefs (snd (authApi_getMe (Responded response) w)) = hrefs w"
  using assms
  by (simp add: request_401 fetchApi_401 authApi_getMe_def fetchApi_send_keeps
      request_send_keeps)

theorem unauthorized_clears_and_redirects_witness:
  "fst (api_getProfile (unauthorized ()) (fresh_browser (Some ''t0ken''))) =
     Inl (Error ''Unauthorized'') \<and>
   access_token (snd (api_getProfile (unauthorized ()) (fresh_browser (Some ''t0ken'')))) = None \<and>
   hrefs (snd (api_getProfile (unauthorized ()) (fresh_browser (Some ''t0ken'')))) = [''/''] \<and>
   fst (profileApi_get (unauthorized ()) (fresh_browser None)) =
     Inl (ApiError ''Not authenticated'' 401) \<and>
   hrefs (snd (profileApi_get (unauthorized ()) (fresh_browser None))) = [''/'']"
proof -
  have h1: "status \<lparr>status = 401, json = JsonResolves (Some ''Not authenticated'') ()\<rparr> = 401"
    by simp
  have h2: "has_window (fresh_browser (Some ''t0ken''))" and h3: "has_window (fresh_browser None)"
    by (simp_all add: fresh_browser_def)
  have e: "fst (profileApi_get (unauthorized ()) (fresh_browser None)) =
      Inl (ApiError ''Not authenticated'' 401)"
    by (simp add: profileApi_get_def unauthorized_def fetchApi_401 or_else_def)
  show ?thesis
    using unauthorized_clears_and_redirects [OF h1 h2, of "''/api/profile''" no_options True]
      unauthorized_clears_and_redirects [OF h1 h3, of "''/api/profile''" no_options True] e
    by (simp add: api_getProfile_def profileApi_get_def unauthorized_def fresh_browser_def)
qed

text \<open>
  C1, the claim as stated, fails for \<open>getMe\<close> in the cookie-credential client: the
  operation is declared with \<open>requireAuth: false\<close>, and a 401 to it raises the typed error
  without any navigation.
\<close>

theorem getMe_unauthorized_counterexample:
  "fst (authApi_getMe (unauthorized alice) (fresh_browser None)) =
     Inl (ApiError ''Not authenticated'' 401) \<and>
   hrefs (snd (authApi_getMe (unauthorized alice) (fresh_browser None))) = []"
  by (simp add: authApi_getMe_def unauthorized_def fetchApi_401 or_else_def fetchApi_send_keeps
      fresh_browser_def)

text \<open>
  C10. In the provider of the bearer-token tree, whenever no \<open>access_token\<close> cookie is
  present, \<open>refreshUser\<close> sets the user to null and makes no network request: nothing
  else of the provider or the browser changes.
\<close>

theorem refreshUser_without_token:
  assumes "access_token (ctx_browser c) = None"
  shows "refreshUser outcome c = c\<lparr>ctx_user := None\<rparr> \<and>
    ctx_user (refreshUser outcome c) = None \<and>
    fetches (ctx_browser (refreshUser outcome c)) = fetches (ctx_browser c)"
  using assms by (simp add: refreshUser_def)

theorem refreshUser_without_token_witness:
  "ctx_user (refreshUser (success alice)
     \<lparr>ctx_user = Some alice, loading = False, ctx_browser = fresh_browser None\<rparr>) = None \<and>
   fetches (ctx_browser (refreshUser (success alice)
     \<lparr>ctx_user = Some alice, loading = False, ctx_browser = fresh_browser None\<rparr>)) = []"
proof -
  have h: "access_token (ctx_browser
      \<lparr>ctx_user = Some alice, loading = False, ctx_browser = fresh_browser None\<rparr>) = None"
    by (simp add: fresh_browser_def)
  show ?thesis
    using refreshUser_without_token [OF h, of "success alice"]
    by (simp add: fresh_browser_def)
qed


text \<open>
  C6. Every call of \<open>fetchUser\<close> issues one request to the get-current-user endpoint and
  no other. When the request succeeds with a user, the call leaves the session state
  exactly \<open>{user: <fetched user>, isLoading: false, isAuthenticated: true, error: null}\<close>;
  when it fails with an error, the call leaves it exactly
  \<open>{user: null, isLoading: false, isAuthenticated: false, error: <message>}\<close>, the message
  being that of the typed error, and \<open>Failed to fetch user\<close> for any other error.
\<close>

theorem fetchUser_terminal_state:
  "fetches (browser (fetchUser outcome s)) =
     fetches (browser s) @
       [\<lparr>url = API_BASE_URL (browser s) @ ''/auth/me'', init = no_options,
         headers = [(''Content-Type'', ''application/json'')], credentials = ''include''\<rparr>] \<and>
   (\<forall>u. fst (authApi_getMe outcome (browser s)) = Inr u \<longrightarrow>
      state (fetchUser outcome s) =
        \<lparr>user = Some u, isLoading = False, isAuthenticated = True, error = None\<rparr>) \<and>
   (\<forall>err. fst (authApi_getMe outcome (browser s)) = Inl err \<longrightarrow>
      state (fetchUser outcome s) =
        \<lparr>user = None, isLoading = False, isAuthenticated = False,
         error = Some (if is_ApiError err then message err else ''Failed to fetch user'')\<rparr>)"
proof -
  obtain r w where settle:
    "fetchApi_settle False outcome (fetchApi_send ''/auth/me'' no_options (browser s)) = (r, w)"
    by (cases "fetchApi_settle False outcome (fetchApi_send ''/auth/me'' no_options (browser s))")
  have result: "fst (authApi_getMe outcome (browser s)) = r"
    using settle by (simp add: authApi_getMe_def fetchApi_def)
  have "fetches w = fetches (fetchApi_send ''/auth/me'' no_options (browser s))"
    using fetchApi_settle_keeps(1)
      [of False outcome "fetchApi_send ''/auth/me'' no_options (browser s)"] settle
    by simp
  then have calls: "fetches (browser (fetchUser outcome s)) =
      fetches (browser s) @
       [\<lparr>url = API_BASE_URL (browser s) @ ''/auth/me'', init = no_options,
         headers = [(''Content-Type'', ''application/json'')], credentials = ''include''\<rparr>]"
    using settle
    by (simp add: fetchUser_def fetchUser_settle_def fetchUser_start_def fetchApi_send_def)
  have "state (fetchUser outcome s) = settled_state r"
    using settle by (simp add: fetchUser_def fetchUser_settle_def fetchUser_start_def)
  then show ?thesis
    using result calls by (simp add: settled_state_def)
qed

theorem fetchUser_terminal_state_witness:
  "state (fetchUser (success alice) (mounted (fresh_browser None))) =
     \<lparr>user = Some alice, isLoading = False, isAuthenticated = True, error = None\<rparr> \<and>
   state (fetchUser (unauthorized alice) (mounted (fresh_browser None))) =
     \<lparr>user = None, isLoading = False, isAuthenticated = False,
      error = Some ''Not authenticated''\<rparr> \<and>
   state (fetchUser (Rejected (TypeError ''Failed to fetch'')) (mounted (fresh_browser None))) =
     \<lparr>user = None, isLoading = False, isAuthenticated = False,
      error = Some ''Failed to fetch user''\<rparr> \<and>
   length (fetches (browser (fetchUser (unauthorized alice) (mounted (fresh_browser None))))) =
     length (fetches (browser (mounted (fresh_browser None)))) + 1"
proof -
  let ?s = "mounted (fresh_browser None)"
  have ok_result: "fst (authApi_getMe (success alice) (browser ?s)) = Inr alice"
    by (simp add: authApi_getMe_def fetchApi_def fetchApi_settle_def success_def ok_def)
  have bad_result: "fst (authApi_getMe (unauthorized alice) (browser ?s)) =
      Inl (ApiError ''Not authenticated'' 401)"
    by (simp add: authApi_getMe_def unauthorized_def fetchApi_401 or_else_def)
  have net_result:
    "fst (authApi_getMe (Rejected (TypeError ''Failed to fetch'') :: User settled) (browser ?s)) =
      Inl (TypeError ''Failed to fetch'')"
    by (simp add: authApi_getMe_def fetchApi_def fetchApi_settle_def)
  have a: "state (fetchUser (success alice) ?s) =
      \<lparr>user = Some alice, isLoading = False, isAuthenticated = True, error = None\<rparr>"
    using ok_result fetchUser_terminal_state [of "success alice" ?s] by simp
  have b: "state (fetchUser (unauthorized alice) ?s) =
      \<lparr>user = None, isLoading = False, isAuthenticated = False,
       error = Some ''Not authenticated''\<rparr>"
    using bad_result fetchUser_terminal_state [of "unauthorized alice" ?s] by simp
  have c: "state (fetchUser (Rejected (TypeError ''Failed to fetch'')) ?s) =
      \<lparr>user = None, isLoading = False, isAuthenticated = False,
       error = Some ''Failed to fetch user''\<rparr>"
    using net_result fetchUser_terminal_state [of "Rejected (TypeError ''Failed to fetch'')" ?s]
    by simp
  have d: "length (fetches (browser (fetchUser (unauthorized alice) ?s))) =
      length (fetches (browser ?s)) + 1"
    using fetchUser_terminal_state [of "unauthorized alice" ?s] by simp
  show ?thesis
    using a b c d by simp
qed


text \<open>
  C2 (as amended). Every invocation of \<open>refresh\<close> first sets \<open>isLoading\<close> to true, leaving
  the rest of the session state as it was, and then invokes \<open>fetchUser\<close>, which issues its
  request before \<open>refresh\<close> returns. Whenever the request of a call of \<open>fetchUser\<close>
  settles, the session state becomes the terminal state of that outcome, whatever the
  order in which the calls were issued: the state after all calls have settled is that
  of the call that settled last.
\<close>

theorem refresh_loading_then_last_settled_wins:
  "isLoading (state (refresh s)) \<and>
   user (state (refresh s)) = user (state s) \<and>
   isAuthenticated (state (refresh s)) = isAuthenticated (state s) \<and>
   error (state (refresh s)) = error (state s) \<and>
   fetches (browser (refresh s)) =
     fetches (browser s) @
       [\<lparr>url = API_BASE_URL (browser s) @ ''/auth/me'', init = no_options,
         headers = [(''Content-Type'', ''application/json'')], credentials = ''include''\<rparr>] \<and>
   pending (refresh s) = pending s @ [issued s] \<and>
   (\<forall>k outcome. k \<in> set (pending (run evs s)) \<longrightarrow>
      state (run (evs @ [Settle k outcome]) s) =
        settled_state (fst (fetchApi_settle False outcome (browser (run evs s)))) \<and>
      \<not> isLoading (state (run (evs @ [Settle k outcome]) s)))"
proof -
  have "state (fetchUser_settle k outcome t) =
      settled_state (fst (fetchApi_settle False outcome (browser t)))"
    if "k \<in> set (pending t)" for k outcome t
    using that by (simp add: fetchUser_settle_def split: prod.splits)
  moreover have "\<not> isLoading (settled_state r)" for r
    by (simp add: settled_state_def split: sum.splits)
  ultimately show ?thesis
    by (simp add: refresh_def fetchUser_start_def fetchApi_send_def run_def)
qed

theorem refresh_loading_then_last_settled_wins_witness:
  "isLoading (state (refresh (fetchUser (success alice_before) (mounted (fresh_browser None))))) \<and>
   user (state (refresh (fetchUser (success alice_before) (mounted (fresh_browser None))))) =
     Some alice_before \<and>
   state (run [Settle 0 (success alice_before), Refresh, Settle 1 (success alice)]
            (mounted (fresh_browser None))) =
     \<lparr>user = Some alice, isLoading = False, isAuthenticated = True, error = None\<rparr>"
proof -
  let ?s = "mounted (fresh_browser None)"
  let ?evs = "[Settle 0 (success alice_before), Refresh]"
  have before: "state (fetchUser (success alice_before) ?s) =
      \<lparr>user = Some alice_before, isLoading = False, isAuthenticated = True, error = None\<rparr>"
    by (simp add: fetchUser_def fetchUser_settle_def fetchUser_start_def mounted_def
        fetchApi_settle_def fetchApi_send_def success_def ok_def settled_state_def)
  have waiting: "1 \<in> set (pending (run ?evs ?s))"
    by (simp add: run_def refresh_def fetchUser_settle_def fetchUser_start_def mounted_def
        fetchApi_settle_def fetchApi_send_def success_def ok_def)
  have result: "settled_state
      (fst (fetchApi_settle False (success alice) (browser (run ?evs ?s)))) =
      \<lparr>user = Some alice, isLoading = False, isAuthenticated = True, error = None\<rparr>"
    by (simp add: fetchApi_settle_def success_def ok_def settled_state_def)
  have "state (run (?evs @ [Settle 1 (success alice)]) ?s) =
      \<lparr>user = Some alice, isLoading = False, isAuthenticated = True, error = None\<rparr>"
    using waiting result refresh_loading_then_last_settled_wins [of ?s ?evs]
    by simp
  then show ?thesis
    using before refresh_loading_then_last_settled_wins [of "fetchUser (success alice_before) ?s" "[]"]
    by simp
qed

text \<open>
  C2, the claim as stated, fails where two calls of \<open>refresh\<close> overlap: the request of the
  second settles first, with the user as it is now, and the request of the first settles
  after it with the user as it was. The most recent call has settled, \<open>isLoading\<close> is
  false, and the state holds the older user.
\<close>

theorem overlapping_refresh_counterexample:
  "\<not> spec_fresh_after
       [Settle 0 (success alice_before), Refresh, Refresh,
        Settle 2 (success alice), Settle 1 (success alice_before)]
       (fresh_browser None) \<and>
   state (run [Settle 0 (success alice_before), Refresh, Refresh,
               Settle 2 (success alice), Settle 1 (success alice_before)]
            (mounted (fresh_browser None))) =
     \<lparr>user = Some alice_before, isLoading = False, isAuthenticated = True, error = None\<rparr>"
  by (simp add: spec_fresh_after_def run_def refresh_def fetchUser_settle_def fetchUser_start_def
      mounted_def fetchApi_settle_def fetchApi_send_def success_def ok_def settled_state_def
      initial_state_def alice_def alice_before_def)

text \<open>
  C5 (as amended). Every execution of \<open>logout\<close> in the bearer-token tree clears the local
  session (user and token) and issues a full-page navigation to the root path; it calls
  no backend. Every execution of \<open>logout\<close> in the cookie-credential tree calls the backend
  once and returns without an error for its caller: when the call succeeds, it clears
  the session state and issues a full-page navigation to the root path; when the call
  fails, the error is logged only, the session state stays as it was and \<open>logout\<close> itself
  issues no navigation.
\<close>

theorem logout_clears_local_state:
  "ctx_user (AuthContext_logout c) = None \<and>
   access_token (ctx_browser (AuthContext_logout c)) = None \<and>
   hrefs (ctx_browser (AuthContext_logout c)) = hrefs (ctx_browser c) @ [''/''] \<and>
   fetches (ctx_browser (AuthContext_logout c)) = fetches (ctx_browser c) \<and>
   length (fetches (browser (useAuth_logout outcome s))) = length (fetches (browser s)) + 1 \<and>
   (\<forall>v. fst (authApi_logout outcome (browser s)) = Inr v \<longrightarrow>
      state (useAuth_logout outcome s) =
        \<lparr>user = None, isLoading = False, isAuthenticated = False, error = None\<rparr> \<and>
      hrefs (browser (useAuth_logout outcome s)) = hrefs (browser s) @ [''/''] \<and>
      console (browser (useAuth_logout outcome s)) = console (browser s)) \<and>
   (\<forall>err. fst (authApi_logout outcome (browser s)) = Inl err \<longrightarrow>
      state (useAuth_logout outcome s) = state s \<and>
      hrefs (browser (useAuth_logout outcome s)) =
        hrefs (snd (authApi_logout outcome (browser s))) \<and>
      console (browser (useAuth_logout outcome s)) =
        console (browser s) @ [(''Logout failed:'', err)])"
proof -
  let ?sent = "fetchApi_send ''/auth/logout'' \<lparr>request_method = Some ''POST'', body = None\<rparr> (browser s)"
  obtain r w where settle: "fetchApi_settle True outcome ?sent = (r, w)"
    by (cases "fetchApi_settle True outcome ?sent")
  have call: "authApi_logout outcome (browser s) = (r, w)"
    using settle by (simp add: authApi_logout_def fetchApi_def)
  have kept: "fetches w = fetches ?sent" "console w = console ?sent"
    using fetchApi_settle_keeps(1,3) [of True outcome ?sent] settle by simp_all
  have ok_hrefs: "hrefs w = hrefs (browser s)" if "r = Inr v" for v
    using settle that
    by (auto simp: fetchApi_settle_def Let_def fetchApi_send_keeps
        split: settled.splits json_result.splits if_splits)
  have "length (fetches (browser (useAuth_logout outcome s))) = length (fetches (browser s)) + 1"
    using call kept by (cases r) (simp_all add: useAuth_logout_def fetchApi_send_def)
  moreover have "state (useAuth_logout outcome s) =
        \<lparr>user = None, isLoading = False, isAuthenticated = False, error = None\<rparr> \<and>
      hrefs (browser (useAuth_logout outcome s)) = hrefs (browser s) @ [''/''] \<and>
      console (browser (useAuth_logout outcome s)) = console (browser s)"
    if "r = Inr v" for v
    using call kept ok_hrefs [OF that] that
    by (simp add: useAuth_logout_def fetchApi_send_keeps)
  moreover have "state (useAuth_logout outcome s) = state s \<and>
      hrefs (browser (useAuth_logout outcome s)) = hrefs w \<and>
      console (browser (useAuth_logout outcome s)) =
        console (browser s) @ [(''Logout failed:'', err)]"
    if "r = Inl err" for err
    using call kept that by (simp add: useAuth_logout_def fetchApi_send_keeps)
  ultimately show ?thesis
    using call by (simp add: AuthContext_logout_def)
qed

theorem logout_clears_local_state_witness:
  "AuthContext_logout
     \<lparr>ctx_user = Some alice, loading = False, ctx_browser = fresh_browser (Some ''t0ken'')\<rparr> =
     \<lparr>ctx_user = None, loading = False,
      ctx_browser = (fresh_browser None)\<lparr>hrefs := [''/'']\<rparr>\<rparr> \<and>
   state (useAuth_logout (success ())
     \<lparr>state = \<lparr>user = Some alice, isLoading = False, isAuthenticated = True, error = None\<rparr>,
      browser = fresh_browser None, pending = [], issued = 1\<rparr>) =
     \<lparr>user = None, isLoading = False, isAuthenticated = False, error = None\<rparr> \<and>
   hrefs (browser (useAuth_logout (success ())
     \<lparr>state = \<lparr>user = Some alice, isLoading = False, isAuthenticated = True, error = None\<rparr>,
      browser = fresh_browser None, pending = [], issued = 1\<rparr>)) = [''/''] \<and>
   console (browser (useAuth_logout server_error
     \<lparr>state = \<lparr>user = Some alice, isLoading = False, isAuthenticated = True, error = None\<rparr>,
      browser = fresh_browser None, pending = [], issued = 1\<rparr>)) =
     [(''Logout failed:'', ApiError ''Unknown error'' 500)]"
proof -
  let ?s = "\<lparr>state = \<lparr>user = Some alice, isLoading = False, isAuthenticated = True, error = None\<rparr>,
      browser = fresh_browser None, pending = [], issued = 1\<rparr>"
  have good: "fst (authApi_logout (success ()) (browser ?s)) = Inr ()"
    by (simp add: authApi_logout_def fetchApi_def fetchApi_settle_def success_def ok_def)
  have bad: "fst (authApi_logout (server_error :: unit settled) (browser ?s)) =
      Inl (ApiError ''Unknown error'' 500)"
    by (simp add: authApi_logout_def fetchApi_def fetchApi_settle_def server_error_def ok_def
        or_else_def)
  let ?c = "\<lparr>ctx_user = Some alice, loading = False,
      ctx_browser = fresh_browser (Some ''t0ken'')\<rparr>"
  have a: "state (useAuth_logout (success ()) ?s) =
      \<lparr>user = None, isLoading = False, isAuthenticated = False, error = None\<rparr> \<and>
      hrefs (browser (useAuth_logout (success ()) ?s)) = [''/'']"
    using good logout_clears_local_state [of ?c "success ()" ?s]
    by (simp add: fresh_browser_def)
  have b: "console (browser (useAuth_logout server_error ?s)) =
      [(''Logout failed:'', ApiError ''Unknown error'' 500)]"
    using bad logout_clears_local_state [of ?c server_error ?s]
    by (simp add: fresh_browser_def)
  have "ctx_user (AuthContext_logout ?c) = None \<and>
      access_token (ctx_browser (AuthContext_logout ?c)) = None \<and>
      hrefs (ctx_browser (AuthContext_logout ?c)) = [''/'']"
    using logout_clears_local_state [of ?c "success ()" ?s]
    by (simp add: fresh_browser_def)
  then have c: "AuthContext_logout ?c =
      \<lparr>ctx_user = None, loading = False, ctx_browser = (fresh_browser None)\<lparr>hrefs := [''/'']\<rparr>\<rparr>"
    by (simp add: AuthContext_logout_def fresh_browser_def)
  show ?thesis
    using a b c by simp
qed

text \<open>
  C5, the claim as stated, fails in the cookie-credential tree when the backend call
  fails: the state is cleared and the navigation issued only after the call has
  succeeded, and after a failure the session is still the authenticated one and nothing
  has navigated.
\<close>

theorem logout_failure_counterexample:
  "state (useAuth_logout server_error
     \<lparr>state = \<lparr>user = Some alice, isLoading = False, isAuthenticated = True, error = None\<rparr>,
      browser = fresh_browser None, pending = [], issued = 1\<rparr>) =
     \<lparr>user = Some alice, isLoading = False, isAuthenticated = True, error = None\<rparr> \<and>
   hrefs (browser (useAuth_logout server_error
     \<lparr>state = \<lparr>user = Some alice, isLoading = False, isAuthenticated = True, error = None\<rparr>,
      browser = fresh_browser None, pending = [], issued = 1\<rparr>)) = []"
  by (simp add: useAuth_logout_def authApi_logout_def fetchApi_def fetchApi_settle_def
      fetchApi_send_def server_error_def ok_def or_else_def fresh_browser_def)


text \<open>
  C7. For every trajectory of session states in which the session never resolves to
  authenticated, the route guard never renders its children: while \<open>isLoading\<close> is true
  it renders the loading spinner only, and once \<open>isLoading\<close> is false it renders no
  children and issues a navigation to \<open>/\<close>, and to no other path. This holds for the two
  copies of the guard of the cookie-credential tree (over the states of \<open>useAuth\<close>; in the
  denied state one renders nothing and the other the spinner) and for the guard of the
  bearer-token tree (over the user and the loading flag of the provider, where
  unauthenticated is a null user).
\<close>

theorem guard_never_renders_children:
  assumes "\<forall>a \<in> set states. \<not> isAuthenticated a"
    and "\<forall>c \<in> set provided. fst c = None"
  shows "fst (mounted_ProtectedRoute requireProfile children states) =
      map (\<lambda>a. if isLoading a then LoadingSpinner else Null) states \<and>
    \<not> list_ex shows_children (fst (mounted_ProtectedRoute requireProfile children states)) \<and>
    set (snd (mounted_ProtectedRoute requireProfile children states)) \<subseteq> {''/''} \<and>
    ((\<exists>a \<in> set states. \<not> isLoading a) \<longrightarrow>
       ''/'' \<in> set (snd (mounted_ProtectedRoute requireProfile children states))) \<and>
    set (fst (mounted_ProtectedRoute_redirecting requireProfile children states)) \<subseteq>
      {LoadingSpinner} \<and>
    \<not> list_ex shows_children
        (fst (mounted_ProtectedRoute_redirecting requireProfile children states)) \<and>
    set (snd (mounted_ProtectedRoute_redirecting requireProfile children states)) \<subseteq> {''/''} \<and>
    ((\<exists>a \<in> set states. \<not> isLoading a) \<longrightarrow>
       ''/'' \<in> set (snd (mounted_ProtectedRoute_redirecting requireProfile children states))) \<and>
    fst (mounted_AuthContext_ProtectedRoute requireProfile children provided) =
      map (\<lambda>c. if snd c then LoadingSpinner else Null) provided \<and>
    \<not> list_ex shows_children
        (fst (mounted_AuthContext_ProtectedRoute requireProfile children provided)) \<and>
    set (snd (mounted_AuthContext_ProtectedRoute requireProfile children provided)) \<subseteq> {''/''} \<and>
    ((\<exists>c \<in> set provided. \<not> snd c) \<longrightarrow>
       ''/'' \<in> set (snd (mounted_AuthContext_ProtectedRoute requireProfile children provided)))"
proof -
  have no_children: "\<not> list_ex shows_children (map (\<lambda>x. if busy x then LoadingSpinner else Null) xs)"
    for busy :: "'s \<Rightarrow> bool" and xs
    by (induction xs) simp_all
  let ?hook = "mounted_ProtectedRoute requireProfile children states"
  let ?flagged = "mounted_ProtectedRoute_redirecting requireProfile children states"
  let ?ctx = "mounted_AuthContext_ProtectedRoute requireProfile children provided"
  have a1: "fst ?hook = map (\<lambda>a. if isLoading a then LoadingSpinner else Null) states"
    unfolding mounted_ProtectedRoute_def
    using assms(1) by (rule renders_ProtectedRoute_elements)
  have a2: "\<not> list_ex shows_children (fst ?hook)"
    unfolding a1 by (rule no_children)
  have a3: "set (snd ?hook) \<subseteq> {''/''}"
    unfolding mounted_ProtectedRoute_def
    using assms(1) by (rule renders_ProtectedRoute_pushes)
  have a4: "''/'' \<in> set (snd ?hook)" if "\<exists>a \<in> set states. \<not> isLoading a"
    unfolding mounted_ProtectedRoute_def
    using assms(1) that by (rule renders_ProtectedRoute_redirects) simp
  have "list_all (\<lambda>e. e = LoadingSpinner) (fst ?flagged)"
    unfolding mounted_ProtectedRoute_redirecting_def
    using assms(1) by (rule renders_redirecting_elements)
  then have r1: "set (fst ?flagged) \<subseteq> {LoadingSpinner}"
    by (auto simp: list_all_iff)
  then have r2: "\<not> list_ex shows_children (fst ?flagged)"
    by (auto simp: list_ex_iff)
  have r3: "set (snd ?flagged) \<subseteq> {''/''}"
    unfolding mounted_ProtectedRoute_redirecting_def
    using assms(1) by (rule renders_redirecting_pushes)
  have r4: "''/'' \<in> set (snd ?flagged)" if "\<exists>a \<in> set states. \<not> isLoading a"
    unfolding mounted_ProtectedRoute_redirecting_def
    using assms(1) that by (rule renders_redirecting_redirects) simp
  have b1: "fst ?ctx = map (\<lambda>c. if snd c then LoadingSpinner else Null) provided"
    unfolding mounted_AuthContext_ProtectedRoute_def
    using assms(2) by (rule renders_AuthContext_elements)
  have b2: "\<not> list_ex shows_children (fst ?ctx)"
    unfolding b1 by (rule no_children)
  have b3: "set (snd ?ctx) \<subseteq> {''/''}"
    unfolding mounted_AuthContext_ProtectedRoute_def
    using assms(2) by (rule renders_AuthContext_pushes)
  have b4: "''/'' \<in> set (snd ?ctx)" if "\<exists>c \<in> set provided. \<not> snd c"
    unfolding mounted_AuthContext_ProtectedRoute_def
    using assms(2) that by (rule renders_AuthContext_redirects) simp
  show ?thesis
    using a1 a2 a3 a4 r1 r2 r3 r4 b1 b2 b3 b4 by blast
qed

theorem guard_never_renders_children_witness:
  "mounted_ProtectedRoute True ''dashboard''
     [initial_state,
      \<lparr>user = None, isLoading = False, isAuthenticated = False,
       error = Some ''Not authenticated''\<rparr>] =
     ([LoadingSpinner, Null], [''/'']) \<and>
   mounted_ProtectedRoute_redirecting True ''dashboard''
     [initial_state,
      \<lparr>user = None, isLoading = False, isAuthenticated = False,
       error = Some ''Not authenticated''\<rparr>] =
     ([LoadingSpinner, LoadingSpinner, LoadingSpinner], [''/'']) \<and>
   mounted_AuthContext_ProtectedRoute True ''dashboard'' [(None, True), (None, False)] =
     ([LoadingSpinner, Null], [''/''])"
proof -
  let ?states = "[initial_state,
      \<lparr>user = None, isLoading = False, isAuthenticated = False,
       error = Some ''Not authenticated''\<rparr>]"
  let ?provided = "[(None :: User option, True), (None, False)]"
  have h1: "\<forall>a \<in> set ?states. \<not> isAuthenticated a"
    by (simp add: initial_state_def)
  have h2: "\<forall>c \<in> set ?provided. fst c = None"
    by simp
  have fired: "\<exists>a \<in> set ?states. \<not> isLoading a" "\<exists>c \<in> set ?provided. \<not> snd c"
    by simp_all
  have "fst (mounted_ProtectedRoute True ''dashboard'' ?states) = [LoadingSpinner, Null]"
    and "''/'' \<in> set (snd (mounted_ProtectedRoute True ''dashboard'' ?states))"
    and "set (fst (mounted_ProtectedRoute_redirecting True ''dashboard'' ?states)) \<subseteq>
      {LoadingSpinner}"
    and "''/'' \<in> set (snd (mounted_ProtectedRoute_redirecting True ''dashboard'' ?states))"
    and "fst (mounted_AuthContext_ProtectedRoute True ''dashboard'' ?provided) =
      [LoadingSpinner, Null]"
    and "''/'' \<in> set (snd (mounted_AuthContext_ProtectedRoute True ''dashboard'' ?provided))"
    using guard_never_renders_children [OF h1 h2, of True "''dashboard''"] fired
    by (simp_all add: initial_state_def)
  then show ?thesis
    by (simp add: mounted_ProtectedRoute_def mounted_ProtectedRoute_redirecting_def
        mounted_AuthContext_ProtectedRoute_def ProtectedRoute_def ProtectedRoute_effect_def
        ProtectedRoute_deps_def ProtectedRoute_redirecting_def
        ProtectedRoute_redirecting_effect_def AuthContext_ProtectedRoute_def
        AuthContext_ProtectedRoute_effect_def AuthContext_ProtectedRoute_deps_def
        initial_state_def)
qed

text \<open>
  C4 (as amended). The onboarding form of the bearer-token tree rejects, with the
  corresponding message, any goal time that parses to a number outside the closed
  interval of 120 to 420 minutes and, for a goal time inside it, any race date not
  strictly after the midnight that began today; when it rejects, no network call has been
  made and the provider is as it was. With both checks passed it issues the request that
  creates the profile. The onboarding form of the cookie-credential tree makes neither
  check in its submit handler: whenever the race date entered is a valid date, the
  handler sends the profile with the goal time as computed from the two fields.
\<close>

theorem onboarding_rejects_before_network:
  assumes "parseTimeToMinutes (goalTime form) = Some g"
  shows "(g < 120 \<or> 420 < g \<longrightarrow>
      handleSubmit newDate today created me form c =
        (form\<lparr>form_loading := False,
              form_error := Some ''Goal time should be between 2:00:00 and 7:00:00''\<rparr>, c)) \<and>
    (\<forall>t. 120 \<le> g \<and> g \<le> 420 \<and> newDate (raceDate form) = Some t \<and> t \<le> today \<longrightarrow>
      handleSubmit newDate today created me form c =
        (form\<lparr>form_loading := False, form_error := Some ''Race date must be in the future''\<rparr>,
         c)) \<and>
    (\<forall>t. 120 \<le> g \<and> g \<le> 420 \<and> newDate (raceDate form) = Some t \<and> today < t \<longrightarrow>
      take (Suc (length (fetches (ctx_browser c))))
        (fetches (ctx_browser (snd (handleSubmit newDate today created me form c)))) =
        fetches (request_send ''/api/profile''
          \<lparr>request_method = Some ''POST'',
           body = Some (Stringify_profile
             \<lparr>race_date = t, goal_time_minutes = Some (int g),
              fitness_level = fitnessLevel form\<rparr>)\<rparr> (ctx_browser c))) \<and>
    (\<forall>t. newDate (race_day entered) = Some t \<longrightarrow>
      take (Suc (length (fetches (browser s))))
        (fetches (browser (snd (Onboarding_handleSubmit newDate made generated entered s)))) =
        fetches (fetchApi_send ''/api/profile''
          \<lparr>request_method = Some ''POST'',
           body = Some (Stringify_profile
             \<lparr>race_date = t,
              goal_time_minutes =
                hours_and_minutes (parseInt (goalHours entered)) (parseInt (goalMinutes entered)),
              fitness_level = level entered\<rparr>)\<rparr> (browser s)))"
proof -
  have as_entered: "take (Suc (length (fetches (browser s))))
        (fetches (browser (snd (Onboarding_handleSubmit newDate made generated entered s)))) =
        fetches (fetchApi_send ''/api/profile''
          \<lparr>request_method = Some ''POST'',
           body = Some (Stringify_profile
             \<lparr>race_date = t,
              goal_time_minutes =
                hours_and_minutes (parseInt (goalHours entered)) (parseInt (goalMinutes entered)),
              fitness_level = level entered\<rparr>)\<rparr> (browser s))"
    if valid: "newDate (race_day entered) = Some t" for t
  proof -
    obtain more where
      "fetches (browser (snd (Onboarding_handleSubmit newDate made generated entered s))) =
        fetches (fetchApi_send ''/api/profile''
          \<lparr>request_method = Some ''POST'',
           body = Some (Stringify_profile
             \<lparr>race_date = t,
              goal_time_minutes =
                hours_and_minutes (parseInt (goalHours entered)) (parseInt (goalMinutes entered)),
              fitness_level = level entered\<rparr>)\<rparr> (browser s)) @ more"
      using Onboarding_first_request
          [where newDate = newDate and form = entered and t = t and s = s
            and created = made and generated = generated, OF valid]
      by blast
    then show ?thesis
      by (simp add: fetchApi_send_def)
  qed
  have goal: "handleSubmit newDate today created me form c =
      (form\<lparr>form_loading := False,
            form_error := Some ''Goal time should be between 2:00:00 and 7:00:00''\<rparr>, c)"
    if "g < 120 \<or> 420 < g"
    using assms that by (auto simp: handleSubmit_def handleSubmit_try_def)
  have day: "handleSubmit newDate today created me form c =
      (form\<lparr>form_loading := False, form_error := Some ''Race date must be in the future''\<rparr>, c)"
    if "120 \<le> g" "g \<le> 420" "newDate (raceDate form) = Some t" "t \<le> today" for t
    using assms that by (simp add: handleSubmit_def handleSubmit_try_def date_le_def)
  have sent: "take (Suc (length (fetches (ctx_browser c))))
        (fetches (ctx_browser (snd (handleSubmit newDate today created me form c)))) =
        fetches (request_send ''/api/profile''
          \<lparr>request_method = Some ''POST'',
           body = Some (Stringify_profile
             \<lparr>race_date = t, goal_time_minutes = Some (int g),
              fitness_level = fitnessLevel form\<rparr>)\<rparr> (ctx_browser c))"
    if "120 \<le> g" "g \<le> 420" "newDate (raceDate form) = Some t" "today < t" for t
  proof -
    let ?data = "\<lparr>race_date = t, goal_time_minutes = Some (int g),
        fitness_level = fitnessLevel form\<rparr>"
    let ?sent = "request_send ''/api/profile''
        \<lparr>request_method = Some ''POST'', body = Some (Stringify_profile ?data)\<rparr> (ctx_browser c)"
    obtain r w where settle: "request_settle created ?sent = (r, w)"
      by (cases "request_settle created ?sent")
    have w: "fetches w = fetches ?sent"
      using request_settle_keeps(1) [of created ?sent] settle by simp
    have len: "length (fetches ?sent) = Suc (length (fetches (ctx_browser c)))"
      by (simp add: request_send_def Let_def)
    have after: "\<exists>more. fetches (ctx_browser (refreshUser me (c\<lparr>ctx_browser := w\<rparr>))) =
        fetches w @ more"
      using request_settle_keeps(1) [of me "request_send ''/auth/me'' no_options w"]
      by (auto simp: refreshUser_def api_getMe_def request_def request_send_def Let_def
          split: prod.splits sum.splits)
    show ?thesis
    proof (cases r)
      case (Inl err)
      then show ?thesis
        using assms that settle w len
        by (simp add: handleSubmit_def handleSubmit_try_def date_le_def api_createProfile_def
            request_def)
    next
      case (Inr v)
      then show ?thesis
        using assms that settle w len after
        by (auto simp: handleSubmit_def handleSubmit_try_def date_le_def api_createProfile_def
            request_def Let_def)
    qed
  qed
  show ?thesis
    using goal day sent as_entered by blast
qed


theorem onboarding_rejects_before_network_witness:
  "handleSubmit exampleDate 1736726400000 (success ()) (success alice)
     \<lparr>form_loading = False, form_error = None, raceDate = ''2025-01-13'',
      goalTime = ''1:30:00'', fitnessLevel = intermediate\<rparr>
     \<lparr>ctx_user = Some alice_before, loading = False,
      ctx_browser = fresh_browser (Some ''t0ken'')\<rparr> =
     (\<lparr>form_loading = False,
       form_error = Some ''Goal time should be between 2:00:00 and 7:00:00'',
       raceDate = ''2025-01-13'', goalTime = ''1:30:00'', fitnessLevel = intermediate\<rparr>,
      \<lparr>ctx_user = Some alice_before, loading = False,
       ctx_browser = fresh_browser (Some ''t0ken'')\<rparr>) \<and>
   handleSubmit exampleDate 1736726400000 (success ()) (success alice)
     \<lparr>form_loading = False, form_error = None, raceDate = ''2025-01-13'',
      goalTime = ''4:00:00'', fitnessLevel = intermediate\<rparr>
     \<lparr>ctx_user = Some alice_before, loading = False,
      ctx_browser = fresh_browser (Some ''t0ken'')\<rparr> =
     (\<lparr>form_loading = False, form_error = Some ''Race date must be in the future'',
       raceDate = ''2025-01-13'', goalTime = ''4:00:00'', fitnessLevel = intermediate\<rparr>,
      \<lparr>ctx_user = Some alice_before, loading = False,
       ctx_browser = fresh_browser (Some ''t0ken'')\<rparr>) \<and>
   take 1 (fetches (ctx_browser (snd
        (handleSubmit exampleDate 1736121600000 (success ()) (success alice)
           \<lparr>form_loading = False, form_error = None, raceDate = ''2025-01-13'',
            goalTime = ''4:00:00'', fitnessLevel = intermediate\<rparr>
           \<lparr>ctx_user = Some alice_before, loading = False,
            ctx_browser = fresh_browser (Some ''t0ken'')\<rparr>)))) =
     [\<lparr>url = ''http://localhost:8000/api/profile'',
       init = \<lparr>request_method = Some ''POST'',
               body = Some (Stringify_profile
                 \<lparr>race_date = 1736726400000, goal_time_minutes = Some 240,
                  fitness_level = intermediate\<rparr>)\<rparr>,
       headers = [(''Content-Type'', ''application/json''), (''Authorization'', ''Bearer t0ken'')],
       credentials = ''include''\<rparr>] \<and>
   take 1 (fetches (browser (snd
        (Onboarding_handleSubmit exampleDate (success ()) (success ())
           \<lparr>onboarding_error = None, isSubmitting = False, race_day = ''2025-01-13'',
            goalHours = ''1'', goalMinutes = ''0'', level = beginner\<rparr>
           \<lparr>state = \<lparr>user = Some alice_before, isLoading = False, isAuthenticated = True,
              error = None\<rparr>,
            browser = fresh_browser None, pending = [], issued = 1\<rparr>)))) =
     [\<lparr>url = ''http://localhost:8000/api/profile'',
       init = \<lparr>request_method = Some ''POST'',
               body = Some (Stringify_profile
                 \<lparr>race_date = 1736726400000, goal_time_minutes = Some 60,
                  fitness_level = beginner\<rparr>)\<rparr>,
       headers = [(''Content-Type'', ''application/json'')],
       credentials = ''include''\<rparr>]"
proof -
  let ?entered = "\<lparr>onboarding_error = None, isSubmitting = False, race_day = ''2025-01-13'',
      goalHours = ''1'', goalMinutes = ''0'', level = beginner\<rparr>"
  let ?s = "\<lparr>state = \<lparr>user = Some alice_before, isLoading = False, isAuthenticated = True,
        error = None\<rparr>,
      browser = fresh_browser None, pending = [], issued = 1\<rparr>"
  let ?short = "\<lparr>form_loading = False, form_error = None, raceDate = ''2025-01-13'',
      goalTime = ''1:30:00'', fitnessLevel = intermediate\<rparr>"
  let ?form = "\<lparr>form_loading = False, form_error = None, raceDate = ''2025-01-13'',
      goalTime = ''4:00:00'', fitnessLevel = intermediate\<rparr>"
  let ?c = "\<lparr>ctx_user = Some alice_before, loading = False,
      ctx_browser = fresh_browser (Some ''t0ken'')\<rparr>"
  have short: "parseTimeToMinutes (goalTime ?short) = Some 90"
    by (simp add: parseTimeToMinutes_def Number_def digit_val_def upt_rec round_div60_def)
  have four: "parseTimeToMinutes (goalTime ?form) = Some 240"
    by (simp add: parseTimeToMinutes_def Number_def digit_val_def upt_rec round_div60_def)
  have race: "exampleDate (raceDate ?form) = Some 1736726400000"
    by (simp add: exampleDate_def)
  have a: "handleSubmit exampleDate 1736726400000 (success ()) (success alice) ?short ?c =
      (?short\<lparr>form_loading := False,
         form_error := Some ''Goal time should be between 2:00:00 and 7:00:00''\<rparr>, ?c)"
    using onboarding_rejects_before_network
      [OF short, where newDate = exampleDate and today = 1736726400000 and created = "success ()"
        and me = "success alice" and c = ?c and entered = ?entered and s = ?s
        and made = "success ()" and generated = "success ()"]
    by simp
  have entered: "exampleDate (race_day ?entered) = Some 1736726400000"
    by (simp add: exampleDate_def)
  have hours: "parseInt ''1'' = Some 1" and minutes: "parseInt ''0'' = Some 0"
    by (simp_all add: parseInt_def Number_def digit_val_def upt_rec)
  have d: "take (Suc (length (fetches (browser ?s))))
      (fetches (browser (snd
        (Onboarding_handleSubmit exampleDate (success ()) (success ()) ?entered ?s)))) =
      fetches (fetchApi_send ''/api/profile''
        \<lparr>request_method = Some ''POST'',
         body = Some (Stringify_profile
           \<lparr>race_date = 1736726400000,
            goal_time_minutes =
              hours_and_minutes (parseInt (goalHours ?entered)) (parseInt (goalMinutes ?entered)),
            fitness_level = level ?entered\<rparr>)\<rparr> (browser ?s))"
    using entered onboarding_rejects_before_network
[OF short, where newDate = exampleDate and today = 1736726400000 and created = "success ()"
        and me = "success alice" and c = ?c and entered = ?entered and s = ?s
        and made = "success ()" and generated = "success ()"]
    by simp
  have d': "take 1 (fetches (browser (snd
        (Onboarding_handleSubmit exampleDate (success ()) (success ()) ?entered ?s)))) =
      [\<lparr>url = ''http://localhost:8000/api/profile'',
        init = \<lparr>request_method = Some ''POST'',
                body = Some (Stringify_profile
                  \<lparr>race_date = 1736726400000, goal_time_minutes = Some 60,
                   fitness_level = beginner\<rparr>)\<rparr>,
        headers = [(''Content-Type'', ''application/json'')],
        credentials = ''include''\<rparr>]"
    using d by (simp add: fresh_browser_def fetchApi_send_def hours minutes hours_and_minutes_def)
  have b: "handleSubmit exampleDate 1736726400000 (success ()) (success alice) ?form ?c =
      (?form\<lparr>form_loading := False, form_error := Some ''Race date must be in the future''\<rparr>,
       ?c)"
    using race onboarding_rejects_before_network
      [OF four, where newDate = exampleDate and today = 1736726400000 and created = "success ()"
        and me = "success alice" and c = ?c and entered = ?entered and s = ?s
        and made = "success ()" and generated = "success ()"]
    by simp
  have c: "take (Suc (length (fetches (ctx_browser ?c))))
      (fetches (ctx_browser (snd
        (handleSubmit exampleDate 1736121600000 (success ()) (success alice) ?form ?c)))) =
      fetches (request_send ''/api/profile''
        \<lparr>request_method = Some ''POST'',
         body = Some (Stringify_profile
           \<lparr>race_date = 1736726400000, goal_time_minutes = Some (int 240),
            fitness_level = fitnessLevel ?form\<rparr>)\<rparr> (ctx_browser ?c))"
    using race onboarding_rejects_before_network
      [OF four, where newDate = exampleDate and today = 1736121600000 and created = "success ()"
        and me = "success alice" and c = ?c and entered = ?entered and s = ?s
        and made = "success ()" and generated = "success ()"]
    by simp
  have c': "take 1 (fetches (ctx_browser (snd
        (handleSubmit exampleDate 1736121600000 (success ()) (success alice) ?form ?c)))) =
      [\<lparr>url = ''http://localhost:8000/api/profile'',
        init = \<lparr>request_method = Some ''POST'',
                body = Some (Stringify_profile
                  \<lparr>race_date = 1736726400000, goal_time_minutes = Some 240,
                   fitness_level = intermediate\<rparr>)\<rparr>,
        headers = [(''Content-Type'', ''application/json''), (''Authorization'', ''Bearer t0ken'')],
        credentials = ''include''\<rparr>]"
    using c by (simp add: fresh_browser_def request_send_def Let_def getToken_def)
  show ?thesis
    using a b c' d' by simp
qed

text \<open>
  C4, the claim as stated, fails for the onboarding form of the cookie-credential tree:
  its submit handler checks neither the goal time nor the race date. A goal time of
  8 hours, 480 minutes, which the number fields of that form admit, is sent to the
  backend as it is.
\<close>

theorem onboarding_unchecked_counterexample:
  "onboarding_error (fst
     (Onboarding_handleSubmit exampleDate (success ()) (success ())
        \<lparr>onboarding_error = None, isSubmitting = False, race_day = ''2025-01-06'',
         goalHours = ''8'', goalMinutes = ''0'', level = intermediate\<rparr>
        \<lparr>state = \<lparr>user = Some alice_before, isLoading = False, isAuthenticated = True,
           error = None\<rparr>,
         browser = fresh_browser None, pending = [], issued = 1\<rparr>)) = None \<and>
   take 1 (fetches (browser (snd
       (Onboarding_handleSubmit exampleDate (success ()) (success ())
          \<lparr>onboarding_error = None, isSubmitting = False, race_day = ''2025-01-06'',
           goalHours = ''8'', goalMinutes = ''0'', level = intermediate\<rparr>
          \<lparr>state = \<lparr>user = Some alice_before, isLoading = False, isAuthenticated = True,
             error = None\<rparr>,
           browser = fresh_browser None, pending = [], issued = 1\<rparr>)))) =
     [\<lparr>url = ''http://localhost:8000/api/profile'',
       init = \<lparr>request_method = Some ''POST'',
               body = Some (Stringify_profile
                 \<lparr>race_date = 1736121600000, goal_time_minutes = Some 480,
                  fitness_level = intermediate\<rparr>)\<rparr>,
       headers = [(''Content-Type'', ''application/json'')],
       credentials = ''include''\<rparr>]"
proof -
  have hours: "parseInt ''8'' = Some 8" and minutes: "parseInt ''0'' = Some 0"
    by (simp_all add: parseInt_def Number_def digit_val_def upt_rec)
  show ?thesis
    by (simp add: Onboarding_handleSubmit_def Onboarding_try_def hours minutes exampleDate_def
        hours_and_minutes_def
        profileApi_create_def trainingPlanApi_generate_def fetchApi_def fetchApi_settle_def
        fetchApi_send_def success_def ok_def refresh_def fetchUser_start_def fresh_browser_def
        no_options_def)
qed

end
